theory Spec2Isabelle
  imports Complex_Main "HOL-Library.Char_ord" "HOL-Library.List_Lexorder"
begin

text \<open>
  A model of the core of the materials catalog: name normalization and the material
  resolver (\<open>price_importer.py\<close>), the price selector and the store queries they use
  (\<open>database_manager.py\<close>), column detection and the import loop. Each function of
  the source is a function here, under its own name without the leading underscore; the
  store is passed in and returned, and an exception is a value.
\<close>

section \<open>Python text\<close>

text \<open>
  Two kinds of strings occur in the program.

  \<^item> Text that the importer manipulates in Python (\<open>str.strip\<close>, \<open>str.lower\<close>,
    \<open>re.sub\<close>, \<open>re.search\<close>): material names, units and column headers. A Python
    \<open>str\<close> is a sequence of Unicode code points, so such text is a list of code
    points, \<open>utext\<close>.
  \<^item> Text that is only stored and compared by SQLite (source types, ISO dates, ids, file
    paths, statuses): a \<open>string\<close>, read as the UTF-8 bytes of the TEXT value. SQLite
    compares TEXT values bytewise (BINARY collation), which is the lexicographic order
    of \<open>string\<close>.
\<close>

type_synonym utext = "nat list"

text \<open>ASCII literals of the source, written as code points.\<close>

definition asc :: "string \<Rightarrow> utext" where
  "asc s = map of_char s"

text \<open>
  \<open>str.isspace\<close> of one code point; \<open>str.strip()\<close> and the class \<open>\s\<close> of \<open>re\<close> on
  \<open>str\<close> patterns use the same set.
\<close>

definition is_space :: "nat \<Rightarrow> bool" where
  "is_space c \<longleftrightarrow>
     (9 \<le> c \<and> c \<le> 13) \<or> (28 \<le> c \<and> c \<le> 32) \<or> c = 133 \<or> c = 160 \<or> c = 5760 \<or>
     (8192 \<le> c \<and> c \<le> 8202) \<or> c = 8232 \<or> c = 8233 \<or> c = 8239 \<or> c = 8287 \<or> c = 12288"

text \<open>
  \<open>str.lower\<close> on the alphabets of the catalog: ASCII \<open>A-Z\<close>, the Russian capitals
  U+0410..U+042F and the capitals U+0400..U+040F. Code points of other scripts are left
  as they are, so the model is \<open>str.lower\<close> on text made of ASCII, the Cyrillic block
  U+0400..U+045F and characters without case (digits, punctuation, whitespace,
  superscripts); on cased letters of other scripts Python lowers and the model does not.
\<close>

definition lower_cp :: "nat \<Rightarrow> nat" where
  "lower_cp c =
     (if 65 \<le> c \<and> c \<le> 90 then c + 32
      else if 1040 \<le> c \<and> c \<le> 1071 then c + 32
      else if 1024 \<le> c \<and> c \<le> 1039 then c + 80
      else c)"

definition py_lower :: "utext \<Rightarrow> utext" where
  "py_lower s = map lower_cp s"

definition py_strip :: "utext \<Rightarrow> utext" where
  "py_strip s = rev (dropWhile is_space (rev (dropWhile is_space s)))"

text \<open>\<open>re.sub(r'\s+', ' ', s)\<close>: every maximal run of whitespace becomes one space.\<close>

function collapse_ws :: "utext \<Rightarrow> utext" where
  "collapse_ws [] = []"
| "collapse_ws (c # cs) =
     (if is_space c then 32 # collapse_ws (dropWhile is_space cs) else c # collapse_ws cs)"
  by pat_completeness auto
termination
  by (relation "measure length") (auto simp: length_dropWhile_le le_imp_less_Suc)

fun starts_with :: "utext \<Rightarrow> utext \<Rightarrow> bool" where
  "starts_with [] s = True"
| "starts_with (p # ps) [] = False"
| "starts_with (p # ps) (c # cs) = (p = c \<and> starts_with ps cs)"

definition ends_with :: "utext \<Rightarrow> utext \<Rightarrow> bool" where
  "ends_with q s = starts_with (rev q) (rev s)"

text \<open>\<open>re.search(p, s)\<close> for a pattern \<open>p\<close> without metacharacters: \<open>p\<close> occurs in \<open>s\<close>.\<close>

fun contains :: "utext \<Rightarrow> utext \<Rightarrow> bool" where
  "contains p [] = (p = [])"
| "contains p (c # cs) = (starts_with p (c # cs) \<or> contains p cs)"

section \<open>Name normalization (\<open>PriceImporter._clean_material_name\<close>)\<close>

text \<open>The alternatives of \<open>^(\<dots>)\s*\<close>: tovar, material, produkt (in Cyrillic).\<close>

definition name_prefixes :: "utext list" where
  "name_prefixes =
     [[1090, 1086, 1074, 1072, 1088],
      [1084, 1072, 1090, 1077, 1088, 1080, 1072, 1083],
      [1087, 1088, 1086, 1076, 1091, 1082, 1090]]"

text \<open>
  The alternatives of \<open>\s*(\<dots>)$\<close>: upakovka, shtuka, kg, m, m followed by
  superscript two, m followed by superscript three.
\<close>

definition name_suffixes :: "utext list" where
  "name_suffixes =
     [[1091, 1087, 1072, 1082, 1086, 1074, 1082, 1072],
      [1096, 1090, 1091, 1082, 1072],
      [1082, 1075],
      [1084],
      [1084, 178],
      [1084, 179]]"

text \<open>The first alternative, in the order of the pattern, that matches at the head.\<close>

fun first_alternative :: "utext list \<Rightarrow> utext \<Rightarrow> utext option" where
  "first_alternative [] s = None"
| "first_alternative (p # ps) s = (if starts_with p s then Some p else first_alternative ps s)"

text \<open>
  \<open>re.sub(r'^(tovar|material|produkt)\s*', '', s)\<close>: \<open>^\<close> anchors the only possible
  match at position 0; the greedy \<open>\s*\<close> takes all the whitespace that follows.
\<close>

definition sub_prefix :: "utext \<Rightarrow> utext" where
  "sub_prefix s =
     (case first_alternative name_prefixes s of
        None \<Rightarrow> s
      | Some p \<Rightarrow> dropWhile is_space (drop (length p) s))"

text \<open>
  \<open>\s*(\<dots>)$\<close> matches the whole of \<open>t\<close>: after the whitespace at its head, \<open>t\<close> is one of
  the alternatives (none of them starts with whitespace, so the greedy \<open>\s*\<close> never
  gives a character back).
\<close>

definition suffix_here :: "utext \<Rightarrow> bool" where
  "suffix_here t \<longleftrightarrow> dropWhile is_space t \<in> set name_suffixes"

text \<open>
  \<open>re.sub(r'\s*(\<dots>)$', '', s)\<close>: the search takes the leftmost position at which the
  pattern matches, and the match reaches the end of the string. (\<open>$\<close> also matches before
  a final newline; \<open>collapse_ws\<close> has left none.)
\<close>

fun sub_suffix :: "utext \<Rightarrow> utext" where
  "sub_suffix [] = []"
| "sub_suffix (c # cs) = (if suffix_here (c # cs) then [] else c # sub_suffix cs)"

definition clean_material_name :: "utext \<Rightarrow> utext" where
  "clean_material_name name =
     (if name = [] then []
      else sub_suffix (sub_prefix (collapse_ws (py_lower (py_strip name)))))"

section \<open>The catalog store (\<open>DatabaseManager\<close>)\<close>

text \<open>
  The tables are lists of rows in insertion (rowid) order. A row carries the columns
  that the resolver, the selector and the importer read or write; the other columns
  (work rate, category, vendor, metadata, timestamps) are payload that no decision
  depends on. A NULL is \<open>None\<close>.
\<close>

record material =
  m_id :: string
  name_canonical :: utext
  m_unit :: utext
  active :: bool

record material_alias =
  alias_material_id :: string
  alias_name :: utext
  alias_customer_id :: "int option"
  alias_source :: string

record customer =
  cust_id :: int
  preferred_price_source_type :: "string option"

record price_source =
  src_id :: int
  src_type :: string
  src_name :: string
  src_customer_id :: "int option"
  src_vendor_id :: "int option"
  src_doc_date :: string

record material_price =
  price_id :: int
  price_material_id :: string
  price :: "real option"
  currency :: string
  price_date :: string
  price_source_id :: int
  is_active :: bool

record import_session =
  session_id :: int
  source_file :: string
  session_customer_id :: "int option"
  session_vendor_id :: "int option"
  status :: string
  processed_rows :: "nat option"
  error_rows :: "nat option"

record unmatched_import =
  unmatched_id :: int
  import_session_id :: int
  raw_name :: utext
  raw_price :: "real option"
  raw_unit :: "utext option"
  raw_article :: "utext option"

text \<open>
  \<open>database_schema.sql\<close> is not among the sources, so the one constraint of the schema
  that the importer can run into is a parameter of the store: \<open>price_not_null\<close> says
  whether the column \<open>material_prices.price\<close> is declared \<open>NOT NULL\<close>.
\<close>

record db =
  price_not_null :: bool
  materials :: "material list"
  material_aliases :: "material_alias list"
  customers :: "customer list"
  price_sources :: "price_source list"
  material_prices :: "material_price list"
  import_sessions :: "import_session list"
  unmatched_imports :: "unmatched_import list"

datatype error = FileNotFoundError | ReadError | IntegrityError | KeyError

text \<open>Python truthiness of an optional integer and of an optional string.\<close>

definition truthy_int :: "int option \<Rightarrow> bool" where
  "truthy_int x \<longleftrightarrow> x \<noteq> None \<and> x \<noteq> Some 0"

definition truthy_str :: "'a list option \<Rightarrow> bool" where
  "truthy_str x \<longleftrightarrow> x \<noteq> None \<and> x \<noteq> Some []"

text \<open>\<open>cursor.lastrowid\<close> of an insert: one more than the largest rowid in use.\<close>

definition next_rowid :: "int list \<Rightarrow> int" where
  "next_rowid ids = fold max ids 0 + 1"

text \<open>\<open>cursor.fetchone()\<close>: the first row of the result, if any.\<close>

definition fetchone :: "'a list \<Rightarrow> 'a option" where
  "fetchone rows = (case rows of [] \<Rightarrow> None | r # _ \<Rightarrow> Some r)"

definition get_material_by_name :: "db \<Rightarrow> utext \<Rightarrow> utext \<Rightarrow> material option" where
  "get_material_by_name d name unit =
     fetchone (filter (\<lambda>m. name_canonical m = name \<and> m_unit m = unit \<and> active m) (materials d))"

text \<open>
  The join \<open>materials m JOIN material_aliases ma ON m.id = ma.material_id\<close> with the
  \<open>WHERE\<close> clause \<open>keep\<close>. The query has no \<open>ORDER BY\<close>, so SQL leaves the order of
  the rows to the store. SQLite drives this join from \<open>material_aliases\<close> and looks the
  material of each alias up by its key, so the model yields the rows alias by alias, in
  the insertion order of the aliases.
\<close>

definition alias_join ::
  "db \<Rightarrow> (material \<Rightarrow> material_alias \<Rightarrow> bool) \<Rightarrow> (material \<times> material_alias) list" where
  "alias_join d keep =
     concat (map (\<lambda>a. map (\<lambda>m. (m, a))
       (filter (\<lambda>m. m_id m = alias_material_id a \<and> keep m a) (materials d))) (material_aliases d))"

definition alias_rows :: "db \<Rightarrow> utext \<Rightarrow> int option \<Rightarrow> (material \<times> material_alias) list" where
  "alias_rows d alias customer_id =
     (if truthy_int customer_id then
        alias_join d (\<lambda>m a. alias_name a = alias \<and>
          (alias_customer_id a = customer_id \<or> alias_customer_id a = None) \<and> active m)
      else
        alias_join d (\<lambda>m a. alias_name a = alias \<and> active m))"

text \<open>
  The rows returned are the material's columns and \<open>ma.alias_name\<close>, which is the
  argument \<open>alias\<close> itself.
\<close>

definition find_material_by_alias :: "db \<Rightarrow> utext \<Rightarrow> int option \<Rightarrow> material list" where
  "find_material_by_alias d alias customer_id = map fst (alias_rows d alias customer_id)"

definition add_price_source ::
  "db \<Rightarrow> string \<Rightarrow> string \<Rightarrow> int option \<Rightarrow> int option \<Rightarrow> string \<Rightarrow> db \<times> int" where
  "add_price_source d stype name customer_id vendor_id docdate =
     (let i = next_rowid (map src_id (price_sources d)) in
      (d\<lparr>price_sources := price_sources d @
           [\<lparr>src_id = i, src_type = stype, src_name = name, src_customer_id = customer_id,
             src_vendor_id = vendor_id, src_doc_date = docdate\<rparr>]\<rparr>, i))"

text \<open>
  The insert of a price row (currency \<open>'RUB'\<close> by default, \<open>is_active = 1\<close>). A NULL
  price violates the \<open>NOT NULL\<close> constraint when the schema declares one: sqlite3
  raises \<open>IntegrityError\<close> and the connection's context manager rolls back.
\<close>

definition add_material_price ::
  "db \<Rightarrow> string \<Rightarrow> real option \<Rightarrow> string \<Rightarrow> int \<Rightarrow> error + db \<times> int" where
  "add_material_price d material_id p pdate source_id =
     (if price_not_null d \<and> p = None then Inl IntegrityError
      else
        let i = next_rowid (map price_id (material_prices d)) in
        Inr (d\<lparr>material_prices := material_prices d @
               [\<lparr>price_id = i, price_material_id = material_id, price = p,
                 currency = ''RUB'', price_date = pdate, price_source_id = source_id,
                 is_active = True\<rparr>]\<rparr>, i))"

section \<open>Price selection (\<open>DatabaseManager.get_current_price\<close>)\<close>

text \<open>The \<open>CASE ps.type WHEN ? THEN 1 WHEN 'invoice' THEN 2 \<dots> ELSE 5 END\<close> of the query;
  a NULL parameter equals no type.\<close>

definition source_rank :: "string option \<Rightarrow> string \<Rightarrow> nat" where
  "source_rank preferred_type t =
     (if Some t = preferred_type then 1
      else if t = ''invoice'' then 2
      else if t = ''website'' then 3
      else if t = ''manual'' then 4
      else 5)"

type_synonym price_row = "material_price \<times> price_source"

text \<open>\<open>ORDER BY rank, mp.price_date DESC\<close>: row \<open>r\<close> does not come after row \<open>r'\<close>.\<close>

definition price_order :: "string option \<Rightarrow> price_row \<Rightarrow> price_row \<Rightarrow> bool" where
  "price_order preferred_type r r' \<longleftrightarrow>
     source_rank preferred_type (src_type (snd r)) < source_rank preferred_type (src_type (snd r')) \<or>
     (source_rank preferred_type (src_type (snd r)) = source_rank preferred_type (src_type (snd r')) \<and>
      price_date (fst r') \<le> price_date (fst r))"

fun insert_row :: "('a \<Rightarrow> 'a \<Rightarrow> bool) \<Rightarrow> 'a \<Rightarrow> 'a list \<Rightarrow> 'a list" where
  "insert_row le x [] = [x]"
| "insert_row le x (y # ys) = (if le x y then x # y # ys else y # insert_row le x ys)"

text \<open>The sort of \<open>ORDER BY\<close>; rows with equal keys stay in the order of the join.\<close>

definition order_by :: "('a \<Rightarrow> 'a \<Rightarrow> bool) \<Rightarrow> 'a list \<Rightarrow> 'a list" where
  "order_by le rows = foldr (insert_row le) rows []"

text \<open>
  The customer's preference: \<open>'invoice'\<close> unless a customer is given and known, in
  which case it is the stored value (which may be NULL).
\<close>

definition preferred_type_of :: "db \<Rightarrow> int option \<Rightarrow> string option" where
  "preferred_type_of d customer_id =
     (if truthy_int customer_id then
        (case fetchone (filter (\<lambda>c. Some (cust_id c) = customer_id) (customers d)) of
           None \<Rightarrow> Some ''invoice''
         | Some c \<Rightarrow> preferred_price_source_type c)
      else Some ''invoice'')"

text \<open>The rows of \<open>material_prices mp JOIN price_sources ps\<close> that pass the \<open>WHERE\<close> clause.\<close>

definition price_candidates :: "db \<Rightarrow> string \<Rightarrow> string \<Rightarrow> price_row list" where
  "price_candidates d material_id calculation_date =
     concat (map (\<lambda>mp. map (\<lambda>ps. (mp, ps))
         (filter (\<lambda>ps. price_source_id mp = src_id ps) (price_sources d)))
       (filter (\<lambda>mp. price_material_id mp = material_id \<and>
                      price_date mp \<le> calculation_date \<and> is_active mp) (material_prices d)))"

text \<open>
  \<open>if not calculation_date: calculation_date = date.today().isoformat()\<close>, where
  \<open>today\<close> is \<open>date.today().isoformat()\<close> at the time of the call. An empty string
  is falsy, like \<open>None\<close>.
\<close>

definition as_of_date :: "string \<Rightarrow> string option \<Rightarrow> string" where
  "as_of_date today calculation_date =
     (case calculation_date of None \<Rightarrow> today | Some s \<Rightarrow> if s = [] then today else s)"

definition get_current_price ::
  "db \<Rightarrow> string \<Rightarrow> string \<Rightarrow> string option \<Rightarrow> int option \<Rightarrow> price_row option" where
  "get_current_price d today material_id calculation_date customer_id =
     (let calculation_date' = as_of_date today calculation_date;
          preferred_type = preferred_type_of d customer_id
      in fetchone (take 1 (order_by (price_order preferred_type)
           (price_candidates d material_id calculation_date'))))"

section \<open>Import sessions and unmatched rows\<close>

text \<open>
  Modelled from the spec: the column defaults of \<open>import_sessions\<close>, which
  \<open>database_schema.sql\<close> (not among the sources) declares. A session starts in status
  \<open>pending\<close>; its counters are not set before the update at the end of the import.
\<close>

definition create_import_session ::
  "db \<Rightarrow> string \<Rightarrow> int option \<Rightarrow> int option \<Rightarrow> db \<times> int" where
  "create_import_session d path customer_id vendor_id =
     (let i = next_rowid (map session_id (import_sessions d)) in
      (d\<lparr>import_sessions := import_sessions d @
           [\<lparr>session_id = i, source_file = path, session_customer_id = customer_id,
             session_vendor_id = vendor_id, status = ''pending'',
             processed_rows = None, error_rows = None\<rparr>]\<rparr>, i))"

definition update_import_session ::
  "db \<Rightarrow> int \<Rightarrow> string \<Rightarrow> nat option \<Rightarrow> nat option \<Rightarrow> db" where
  "update_import_session d sid st prows erows =
     d\<lparr>import_sessions := map (\<lambda>s.
         if session_id s = sid then
           s\<lparr>processed_rows := (case prows of None \<Rightarrow> processed_rows s | Some n \<Rightarrow> Some n),
             error_rows := (case erows of None \<Rightarrow> error_rows s | Some n \<Rightarrow> Some n),
             status := st\<rparr>
         else s) (import_sessions d)\<rparr>"

definition add_unmatched_import ::
  "db \<Rightarrow> int \<Rightarrow> utext \<Rightarrow> real option \<Rightarrow> utext option \<Rightarrow> utext option \<Rightarrow> db \<times> int" where
  "add_unmatched_import d sid name p unit article =
     (let i = next_rowid (map unmatched_id (unmatched_imports d)) in
      (d\<lparr>unmatched_imports := unmatched_imports d @
           [\<lparr>unmatched_id = i, import_session_id = sid, raw_name = name, raw_price = p,
             raw_unit = unit, raw_article = article\<rparr>]\<rparr>, i))"

section \<open>The resolver (\<open>PriceImporter._match_material\<close>)\<close>

text \<open>
  The article is accepted and not used. A material row is a non-empty dict, so
  \<open>if material:\<close> holds exactly when a row was fetched.
\<close>

definition match_material ::
  "db \<Rightarrow> utext option \<Rightarrow> utext option \<Rightarrow> utext option \<Rightarrow> int option \<Rightarrow> material option" where
  "match_material d name unit article customer_id =
     (case name of
        None \<Rightarrow> None
      | Some n \<Rightarrow>
          if n = [] then None
          else
            let clean_name = clean_material_name n;
                exact = (case unit of
                           None \<Rightarrow> None
                         | Some u \<Rightarrow> if u = [] then None else get_material_by_name d clean_name u)
            in case exact of
                 Some m \<Rightarrow> Some m
               | None \<Rightarrow>
                   (case find_material_by_alias d clean_name customer_id of
                      [] \<Rightarrow> None
                    | m # _ \<Rightarrow> Some m))"

section \<open>Column detection (\<open>PriceImporter._detect_columns\<close>)\<close>

text \<open>
  Every pattern of the source is a literal, searched as a substring, except
  \<open>ed\.?\s*izm\<close> (in Cyrillic), here \<open>EdIzm\<close>.
\<close>

datatype pattern = Lit utext | EdIzm

text \<open>
  \<open>ed\.?\s*izm\<close> matches at the head of \<open>t\<close>: \<open>ed\<close>, one dot if there is one, all the
  whitespace that follows, then \<open>izm\<close>. Giving the dot or a space back cannot help,
  since \<open>izm\<close> starts with neither.
\<close>

definition ed_izm_at :: "utext \<Rightarrow> bool" where
  "ed_izm_at t \<longleftrightarrow>
     starts_with [1077, 1076] t \<and>
     (let r = drop 2 t;
          r' = (case r of [] \<Rightarrow> r | c # cs \<Rightarrow> if c = 46 then cs else r)
      in starts_with [1080, 1079, 1084] (dropWhile is_space r'))"

fun search_ed_izm :: "utext \<Rightarrow> bool" where
  "search_ed_izm [] = False"
| "search_ed_izm (c # cs) = (ed_izm_at (c # cs) \<or> search_ed_izm cs)"

fun re_search :: "pattern \<Rightarrow> utext \<Rightarrow> bool" where
  "re_search (Lit p) s = contains p s"
| "re_search EdIzm s = search_ed_izm s"

text \<open>\<open>any(re.search(pattern, col_lower) for pattern in patterns)\<close>\<close>

definition any_search :: "pattern list \<Rightarrow> utext \<Rightarrow> bool" where
  "any_search patterns s = list_ex (\<lambda>p. re_search p s) patterns"

text \<open>naimenovan, material, tovar, produkt (in Cyrillic), name, material, product, item\<close>

definition name_patterns :: "pattern list" where
  "name_patterns =
     [Lit [1085, 1072, 1080, 1084, 1077, 1085, 1086, 1074, 1072, 1085],
      Lit [1084, 1072, 1090, 1077, 1088, 1080, 1072, 1083],
      Lit [1090, 1086, 1074, 1072, 1088],
      Lit [1087, 1088, 1086, 1076, 1091, 1082, 1090],
      Lit (asc ''name''), Lit (asc ''material''), Lit (asc ''product''), Lit (asc ''item'')]"

text \<open>tsena, stoimost (in Cyrillic), price, cost\<close>

definition price_patterns :: "pattern list" where
  "price_patterns =
     [Lit [1094, 1077, 1085, 1072],
      Lit [1089, 1090, 1086, 1080, 1084, 1086, 1089, 1090, 1100],
      Lit (asc ''price''), Lit (asc ''cost'')]"

text \<open>the pattern \<open>ed\.?\s*izm\<close>, edinitsa (in Cyrillic), unit\<close>

definition unit_patterns :: "pattern list" where
  "unit_patterns =
     [EdIzm,
      Lit [1077, 1076, 1080, 1085, 1080, 1094, 1072],
      Lit (asc ''unit'')]"

text \<open>artikul, kod (in Cyrillic), article, code, sku\<close>

definition article_patterns :: "pattern list" where
  "article_patterns =
     [Lit [1072, 1088, 1090, 1080, 1082, 1091, 1083],
      Lit [1082, 1086, 1076],
      Lit (asc ''article''), Lit (asc ''code''), Lit (asc ''sku'')]"

text \<open>The keys \<open>'name'\<close>, \<open>'price'\<close>, \<open>'unit'\<close>, \<open>'article'\<close> of the mapping.\<close>

datatype field = FName | FPrice | FUnit | FArticle

type_synonym column_mapping = "field \<rightharpoonup> utext"

text \<open>One pass of the loop body: \<open>mapping[key] = col\<close> in the first branch that matches.\<close>

definition detect_column :: "column_mapping \<Rightarrow> utext \<Rightarrow> column_mapping" where
  "detect_column mapping col =
     (let col_lower = py_strip (py_lower col) in
      if any_search name_patterns col_lower then mapping(FName \<mapsto> col)
      else if any_search price_patterns col_lower then mapping(FPrice \<mapsto> col)
      else if any_search unit_patterns col_lower then mapping(FUnit \<mapsto> col)
      else if any_search article_patterns col_lower then mapping(FArticle \<mapsto> col)
      else mapping)"

definition detect_columns :: "utext list \<Rightarrow> column_mapping" where
  "detect_columns columns = foldl detect_column Map.empty columns"

section \<open>Rows of the file (\<open>PriceImporter._extract_material_data\<close>)\<close>

text \<open>
  A cell is null (\<open>pd.notna\<close> fails) or a value, represented by what the code observes
  of it: \<open>str(value)\<close>, and \<open>float(value)\<close>, which is \<open>None\<close> when the conversion raises
  \<open>ValueError\<close> or \<open>TypeError\<close>. A row maps column headers to cells; reading a column
  that the row lacks raises \<open>KeyError\<close>.
\<close>

datatype cell = NA | Val utext "real option"

type_synonym row = "(utext \<times> cell) list"

record dataframe =
  df_columns :: "utext list"
  df_rows :: "row list"

record material_data =
  md_name :: "utext option"
  md_price :: "real option"
  md_unit :: "utext option"
  md_article :: "utext option"

definition safe_get :: "row \<Rightarrow> column_mapping \<Rightarrow> field \<Rightarrow> error + utext option" where
  "safe_get r mapping column_name =
     (case mapping column_name of
        None \<Rightarrow> Inr None
      | Some col \<Rightarrow>
          (case map_of r col of
             None \<Rightarrow> Inl KeyError
           | Some NA \<Rightarrow> Inr None
           | Some (Val s f) \<Rightarrow> Inr (Some (py_strip s))))"

definition safe_get_numeric :: "row \<Rightarrow> column_mapping \<Rightarrow> field \<Rightarrow> error + real option" where
  "safe_get_numeric r mapping column_name =
     (case mapping column_name of
        None \<Rightarrow> Inr None
      | Some col \<Rightarrow>
          (case map_of r col of
             None \<Rightarrow> Inl KeyError
           | Some NA \<Rightarrow> Inr None
           | Some (Val s f) \<Rightarrow> Inr f))"

definition extract_material_data :: "row \<Rightarrow> column_mapping \<Rightarrow> error + material_data" where
  "extract_material_data r mapping =
     (case safe_get r mapping FName of Inl e \<Rightarrow> Inl e | Inr n \<Rightarrow>
      case safe_get_numeric r mapping FPrice of Inl e \<Rightarrow> Inl e | Inr p \<Rightarrow>
      case safe_get r mapping FUnit of Inl e \<Rightarrow> Inl e | Inr u \<Rightarrow>
      case safe_get r mapping FArticle of Inl e \<Rightarrow> Inl e | Inr a \<Rightarrow>
      Inr \<lparr>md_name = n, md_price = p, md_unit = u, md_article = a\<rparr>)"

section \<open>The import (\<open>PriceImporter._process_dataframe\<close>, \<open>import_from_file\<close>)\<close>

text \<open>
  The body of \<open>_add_alias_if_not_exists\<close> is \<open>pass\<close> in both cases: the store is
  queried and never written.
\<close>

definition add_alias_if_not_exists :: "db \<Rightarrow> string \<Rightarrow> utext \<Rightarrow> int option \<Rightarrow> string \<Rightarrow> db" where
  "add_alias_if_not_exists d material_id alias customer_id source =
     (let existing = find_material_by_alias d alias customer_id in
      if existing = [] then d else d)"

record results =
  processed :: nat
  errors :: nat
  unmatched :: "material_data list"

text \<open>
  One iteration of the loop over the rows. Every exception raised in the \<open>try\<close> block
  ends in the \<open>except\<close> branch, which only counts an error.
\<close>

definition process_row ::
  "string \<Rightarrow> column_mapping \<Rightarrow> int \<Rightarrow> int \<Rightarrow> int option \<Rightarrow> db \<times> results \<Rightarrow> row \<Rightarrow> db \<times> results" where
  "process_row today mapping source_id sid customer_id st r =
     (let d = fst st; res = snd st in
      case extract_material_data r mapping of
        Inl e \<Rightarrow> (d, res\<lparr>errors := errors res + 1\<rparr>)
      | Inr md \<Rightarrow>
          if \<not> truthy_str (md_name md) then (d, res\<lparr>errors := errors res + 1\<rparr>)
          else
            (case match_material d (md_name md) (md_unit md) (md_article md) customer_id of
               Some m \<Rightarrow>
                 (case add_material_price d (m_id m) (md_price md) today source_id of
                    Inl e \<Rightarrow> (d, res\<lparr>errors := errors res + 1\<rparr>)
                  | Inr (d', i) \<Rightarrow>
                      (if md_name md \<noteq> Some (name_canonical m)
                       then add_alias_if_not_exists d' (m_id m) (case md_name md of Some n \<Rightarrow> n | None \<Rightarrow> [])
                              customer_id ''import''
                       else d',
                       res\<lparr>processed := processed res + 1\<rparr>))
             | None \<Rightarrow>
                 (fst (add_unmatched_import d sid (case md_name md of Some n \<Rightarrow> n | None \<Rightarrow> [])
                         (md_price md) (md_unit md) (md_article md)),
                  res\<lparr>unmatched := unmatched res @ [md], errors := errors res + 1\<rparr>)))"

definition process_dataframe ::
  "db \<Rightarrow> string \<Rightarrow> dataframe \<Rightarrow> int \<Rightarrow> int \<Rightarrow> int option \<Rightarrow> db \<times> results" where
  "process_dataframe d today df source_id sid customer_id =
     (let mapping = detect_columns (df_columns df) in
      foldl (process_row today mapping source_id sid customer_id)
        (d, \<lparr>processed = 0, errors = 0, unmatched = []\<rparr>) (df_rows df))"

text \<open>
  The file system as the import sees it: a path that exists holds a file, which
  \<open>pd.read_csv\<close> and \<open>pd.read_excel\<close> either parse into a table or reject with an
  exception (\<open>None\<close>).
\<close>

record input_file =
  read_csv :: "dataframe option"
  read_excel :: "dataframe option"

type_synonym filesystem = "string \<rightharpoonup> input_file"

definition endswith :: "string \<Rightarrow> string \<Rightarrow> bool" where
  "endswith s suf \<longleftrightarrow> take (length suf) (rev s) = rev suf"

text \<open>\<open>os.path.basename\<close>: what follows the last slash.\<close>

definition basename :: "string \<Rightarrow> string" where
  "basename path = rev (takeWhile (\<lambda>c. c \<noteq> CHR ''/'') (rev path))"

record import_result =
  r_session_id :: int
  r_total_rows :: nat
  r_processed :: nat
  r_errors :: nat
  r_unmatched :: "material_data list"
  r_price_source_id :: int

text \<open>
  The result is the store after the call together with the exception raised or the
  dict returned.
\<close>

definition import_from_file ::
  "db \<Rightarrow> filesystem \<Rightarrow> string \<Rightarrow> string \<Rightarrow> int option \<Rightarrow> int option \<Rightarrow> string option
     \<Rightarrow> db \<times> (error + import_result)" where
  "import_from_file d fs today file_path customer_id vendor_id doc_date =
     (case fs file_path of
        None \<Rightarrow> (d, Inl FileNotFoundError)
      | Some f \<Rightarrow>
          let (d1, sid) = create_import_session d file_path customer_id vendor_id in
          (case (if endswith file_path ''.csv'' then read_csv f else read_excel f) of
             None \<Rightarrow> (update_import_session d1 sid ''failed'' None None, Inl ReadError)
           | Some df \<Rightarrow>
               let source_name = ''Import from '' @ basename file_path @
                     (if truthy_str doc_date
                      then '' ('' @ (case doc_date of Some x \<Rightarrow> x | None \<Rightarrow> []) @ '')'' else []);
                   (d2, source_id) = add_price_source d1 ''invoice'' source_name customer_id vendor_id
                     (if truthy_str doc_date then (case doc_date of Some x \<Rightarrow> x | None \<Rightarrow> [])
                      else today);
                   (d3, res) = process_dataframe d2 today df source_id sid customer_id;
                   d4 = update_import_session d3 sid ''completed''
                          (Some (processed res)) (Some (errors res))
               in (d4, Inr \<lparr>r_session_id = sid, r_total_rows = length (df_rows df),
                            r_processed = processed res, r_errors = errors res,
                            r_unmatched = unmatched res, r_price_source_id = source_id\<rparr>)))"

section \<open>Normal form of names\<close>

text \<open>
  The shape of a normalized name, used to reason about a second pass: every whitespace
  character is a single space followed by a character that is not whitespace, the name
  does not start with whitespace, and lowering changes no character.
\<close>

fun ws_ok :: "utext \<Rightarrow> bool" where
  "ws_ok [] = True"
| "ws_ok (c # cs) = ((is_space c \<longrightarrow> c = 32 \<and> cs \<noteq> [] \<and> \<not> is_space (hd cs)) \<and> ws_ok cs)"

definition normal_name :: "utext \<Rightarrow> bool" where
  "normal_name t \<longleftrightarrow>
     ws_ok t \<and> (t \<noteq> [] \<longrightarrow> \<not> is_space (hd t)) \<and> (\<forall>c\<in>set t. lower_cp c = c)"

section \<open>Reading the column mapping\<close>

text \<open>The pattern set \<open>patterns\<close> matches the header \<open>col\<close>, lowercased and trimmed.\<close>

definition header_matches :: "pattern list \<Rightarrow> utext \<Rightarrow> bool" where
  "header_matches patterns col = any_search patterns (py_strip (py_lower col))"

text \<open>The last column, in the order of the header row, that satisfies \<open>P\<close>.\<close>

definition last_matching :: "(utext \<Rightarrow> bool) \<Rightarrow> utext list \<Rightarrow> utext option" where
  "last_matching P columns = (case filter P columns of [] \<Rightarrow> None | c # cs \<Rightarrow> Some (last (c # cs)))"

text \<open>The branch of the \<open>if\<close>/\<open>elif\<close> chain that a header takes.\<close>

definition column_field :: "utext \<Rightarrow> field option" where
  "column_field col =
     (if header_matches name_patterns col then Some FName
      else if header_matches price_patterns col then Some FPrice
      else if header_matches unit_patterns col then Some FUnit
      else if header_matches article_patterns col then Some FArticle
      else None)"

section \<open>Reading the rows of a batch\<close>

text \<open>
  A row is resolvable when its fields can be read, its name is not empty and the
  resolver finds a material for it; \<open>row_price\<close> is the price read from the row.
\<close>

definition resolvable :: "db \<Rightarrow> column_mapping \<Rightarrow> int option \<Rightarrow> row \<Rightarrow> bool" where
  "resolvable d mapping customer_id r =
     (case extract_material_data r mapping of
        Inl e \<Rightarrow> False
      | Inr md \<Rightarrow> truthy_str (md_name md) \<and>
          match_material d (md_name md) (md_unit md) (md_article md) customer_id \<noteq> None)"

definition row_price :: "column_mapping \<Rightarrow> row \<Rightarrow> real option" where
  "row_price mapping r =
     (case extract_material_data r mapping of Inl e \<Rightarrow> None | Inr md \<Rightarrow> md_price md)"


text \<open>Two stores with the same catalog: materials, aliases and schema.\<close>

definition same_catalog :: "db \<Rightarrow> db \<Rightarrow> bool" where
  "same_catalog d d' \<longleftrightarrow>
     materials d' = materials d \<and> material_aliases d' = material_aliases d \<and>
     price_not_null d' = price_not_null d"

section \<open>Example data\<close>

text \<open>The name \<open>material material\<close> (in Cyrillic): the prefix word twice.\<close>

definition ex_material_twice :: utext where
  "ex_material_twice =
     [1084, 1072, 1090, 1077, 1088, 1080, 1072, 1083, 32,
      1084, 1072, 1090, 1077, 1088, 1080, 1072, 1083]"

text \<open>The name \<open>Tsement  M500\<close> (in Cyrillic) with spaces around and a double space inside.\<close>

definition ex_cement :: utext where
  "ex_cement = [32, 1062, 1077, 1084, 1077, 1085, 1090, 32, 32, 1052, 53, 48, 48, 32]"

text \<open>
  The price history of the selection example: material \<open>m1\<close> with two invoice prices
  (2024-01-01: 100, 2024-03-01: 110) and one manual price (2024-02-01: 90). Customer 5
  prefers manual prices.
\<close>

definition ex_invoice_source :: price_source where
  "ex_invoice_source =
     \<lparr>src_id = 1, src_type = ''invoice'', src_name = ''Invoice 17'', src_customer_id = None,
      src_vendor_id = None, src_doc_date = ''2024-01-01''\<rparr>"

definition ex_manual_source :: price_source where
  "ex_manual_source =
     \<lparr>src_id = 2, src_type = ''manual'', src_name = ''Manual entry'', src_customer_id = None,
      src_vendor_id = None, src_doc_date = ''2024-02-01''\<rparr>"

definition ex_price_100 :: material_price where
  "ex_price_100 =
     \<lparr>price_id = 1, price_material_id = ''m1'', price = Some 100, currency = ''RUB'',
      price_date = ''2024-01-01'', price_source_id = 1, is_active = True\<rparr>"

definition ex_price_110 :: material_price where
  "ex_price_110 =
     \<lparr>price_id = 2, price_material_id = ''m1'', price = Some 110, currency = ''RUB'',
      price_date = ''2024-03-01'', price_source_id = 1, is_active = True\<rparr>"

definition ex_price_90 :: material_price where
  "ex_price_90 =
     \<lparr>price_id = 3, price_material_id = ''m1'', price = Some 90, currency = ''RUB'',
      price_date = ''2024-02-01'', price_source_id = 2, is_active = True\<rparr>"

definition ex_price_db :: db where
  "ex_price_db =
     \<lparr>price_not_null = True,
      materials = [\<lparr>m_id = ''m1'', name_canonical = asc ''cement'', m_unit = asc ''kg'',
                    active = True\<rparr>],
      material_aliases = [],
      customers = [\<lparr>cust_id = 5, preferred_price_source_type = Some ''manual''\<rparr>],
      price_sources = [ex_invoice_source, ex_manual_source],
      material_prices = [ex_price_100, ex_price_110, ex_price_90],
      import_sessions = [],
      unmatched_imports = []\<rparr>"

text \<open>
  Two grades of concrete. The text \<open>b25\<close> is a global alias of the first and an alias
  of the second for customer 7; customer 8 has its own alias \<open>beton\<close> for the first.
\<close>

definition ex_m1 :: material where
  "ex_m1 = \<lparr>m_id = ''m1'', name_canonical = asc ''concrete b25'', m_unit = asc ''m3'',
            active = True\<rparr>"

definition ex_m2 :: material where
  "ex_m2 = \<lparr>m_id = ''m2'', name_canonical = asc ''concrete b25 premium'', m_unit = asc ''m3'',
            active = True\<rparr>"

definition ex_alias_global :: material_alias where
  "ex_alias_global = \<lparr>alias_material_id = ''m1'', alias_name = asc ''b25'',
                      alias_customer_id = None, alias_source = ''manual''\<rparr>"

definition ex_alias_cust7 :: material_alias where
  "ex_alias_cust7 = \<lparr>alias_material_id = ''m2'', alias_name = asc ''b25'',
                     alias_customer_id = Some 7, alias_source = ''manual''\<rparr>"

definition ex_alias_cust8 :: material_alias where
  "ex_alias_cust8 = \<lparr>alias_material_id = ''m1'', alias_name = asc ''beton'',
                     alias_customer_id = Some 8, alias_source = ''manual''\<rparr>"

definition ex_catalog :: "material_alias list \<Rightarrow> db" where
  "ex_catalog aliases =
     \<lparr>price_not_null = True, materials = [ex_m1, ex_m2], material_aliases = aliases,
      customers = [], price_sources = [], material_prices = [], import_sessions = [],
      unmatched_imports = []\<rparr>"

text \<open>A global alias that sends the canonical name of the first grade to the second.\<close>

definition ex_alias_clash :: material_alias where
  "ex_alias_clash = \<lparr>alias_material_id = ''m2'', alias_name = asc ''concrete b25'',
                     alias_customer_id = None, alias_source = ''manual''\<rparr>"

text \<open>
  The header row of the column-detection example (in Cyrillic): \<open>Material\<close>,
  \<open>Edinitsa izmereniya\<close> (unit of measure), \<open>Tsena materiala, za edinitsu\<close> (price of
  the material, per unit).
\<close>

definition ex_col_material :: utext where
  "ex_col_material = [1052, 1072, 1090, 1077, 1088, 1080, 1072, 1083]"

definition ex_col_unit :: utext where
  "ex_col_unit =
     [1045, 1076, 1080, 1085, 1080, 1094, 1072, 32,
      1080, 1079, 1084, 1077, 1088, 1077, 1085, 1080, 1103]"

definition ex_col_price :: utext where
  "ex_col_price =
     [1062, 1077, 1085, 1072, 32,
      1084, 1072, 1090, 1077, 1088, 1080, 1072, 1083, 1072, 44, 32,
      1079, 1072, 32,
      1077, 1076, 1080, 1085, 1080, 1094, 1091]"

text \<open>
  Rows of a price list with the columns \<open>Name\<close>, \<open>Unit\<close>, \<open>Price\<close>: a row for the
  first grade of concrete with the price 100, the same row with a price cell that is
  not a number, and a row for a material that the catalog does not know.
\<close>

definition ex_columns :: "utext list" where
  "ex_columns = [asc ''Name'', asc ''Unit'', asc ''Price'']"

definition ex_row_good :: row where
  "ex_row_good =
     [(asc ''Name'', Val (asc ''Concrete B25'') None),
      (asc ''Unit'', Val (asc ''m3'') None),
      (asc ''Price'', Val (asc ''100'') (Some 100))]"

definition ex_row_bad_price :: row where
  "ex_row_bad_price =
     [(asc ''Name'', Val (asc ''Concrete B25'') None),
      (asc ''Unit'', Val (asc ''m3'') None),
      (asc ''Price'', Val (asc ''n/a'') None)]"

definition ex_row_unknown :: row where
  "ex_row_unknown =
     [(asc ''Name'', Val (asc ''Gravel'') None),
      (asc ''Unit'', Val (asc ''t'') None),
      (asc ''Price'', Val (asc ''10'') (Some 10))]"

definition ex_mapping :: column_mapping where
  "ex_mapping = [FName \<mapsto> asc ''Name'', FUnit \<mapsto> asc ''Unit'', FPrice \<mapsto> asc ''Price'']"

section \<open>Text\<close>

lemma asc_Nil_iff: "asc s = [] \<longleftrightarrow> s = []"
  by (simp add: asc_def)

lemma asc_eq_iff: "asc s = asc t \<longleftrightarrow> s = t"
  unfolding asc_def by (rule inj_map_eq_map) (simp add: inj_on_def)

section \<open>Name normalization: a second pass\<close>

lemma is_space_lower_cp: "is_space (lower_cp c) = is_space c"
  by (auto simp: is_space_def lower_cp_def)

lemma lower_cp_idem: "lower_cp (lower_cp c) = lower_cp c"
  by (auto simp: lower_cp_def)

lemma lower_cp_32: "lower_cp 32 = 32"
  by (simp add: lower_cp_def)

lemma is_space_32: "is_space 32"
  by (simp add: is_space_def)

lemma ws_ok_drop: "ws_ok t \<Longrightarrow> ws_ok (drop n t)"
proof (induction t arbitrary: n)
  case Nil
  then show ?case by simp
next
  case (Cons c cs)
  then show ?case by (cases n) auto
qed

lemma ws_ok_dropWhile: "ws_ok t \<Longrightarrow> ws_ok (dropWhile P t)"
  by (induction t) auto

lemma ws_ok_last: "ws_ok t \<Longrightarrow> t \<noteq> [] \<Longrightarrow> \<not> is_space (last t)"
  by (induction t) auto

lemma collapse_ws_fixed: "ws_ok t \<Longrightarrow> collapse_ws t = t"
proof (induction t)
  case Nil
  then show ?case by simp
next
  case (Cons c cs)
  show ?case
  proof (cases "is_space c")
    case True
    with Cons.prems have "cs \<noteq> []" "\<not> is_space (hd cs)" "c = 32" by auto
    then have "dropWhile is_space cs = cs" by (cases cs) auto
    with Cons True \<open>c = 32\<close> show ?thesis by simp
  next
    case False
    with Cons show ?thesis by simp
  qed
qed

lemma dropWhile_last:
  "xs \<noteq> [] \<Longrightarrow> \<not> P (last xs) \<Longrightarrow> dropWhile P xs \<noteq> [] \<and> last (dropWhile P xs) = last xs"
  by (induction xs) (auto split: if_splits)

lemma last_dropWhile_nonempty: "dropWhile P xs \<noteq> [] \<Longrightarrow> last (dropWhile P xs) = last xs"
  by (induction xs) (auto split: if_splits)

lemma py_strip_fixed:
  assumes "t = [] \<or> (\<not> is_space (hd t) \<and> \<not> is_space (last t))"
  shows "py_strip t = t"
proof (cases t)
  case Nil
  then show ?thesis by (simp add: py_strip_def)
next
  case (Cons c cs)
  with assms have h: "\<not> is_space c" and l: "\<not> is_space (last t)" by auto
  from h Cons have "dropWhile is_space t = t" by simp
  moreover from l Cons have "dropWhile is_space (rev t) = rev t"
    by (cases "rev t") (auto simp: hd_rev[symmetric] simp del: hd_rev)
  ultimately show ?thesis by (simp add: py_strip_def)
qed

lemma py_strip_ends:
  assumes "py_strip s \<noteq> []"
  shows "\<not> is_space (hd (py_strip s)) \<and> \<not> is_space (last (py_strip s))"
proof -
  let ?a = "dropWhile is_space s"
  let ?b = "dropWhile is_space (rev ?a)"
  from assms have b: "?b \<noteq> []" by (simp add: py_strip_def)
  then have a: "?a \<noteq> []" by (cases "dropWhile is_space s") simp_all
  have "last (py_strip s) = hd ?b" using b by (simp add: py_strip_def last_rev)
  moreover have "\<not> is_space (hd ?b)" using b by (rule hd_dropWhile)
  moreover have "hd (py_strip s) = last ?b" using b by (simp add: py_strip_def hd_rev)
  moreover have "last ?b = last (rev ?a)" using b by (rule last_dropWhile_nonempty)
  moreover have "last (rev ?a) = hd ?a" using a by (simp add: last_rev)
  moreover have "\<not> is_space (hd ?a)" using a by (rule hd_dropWhile)
  ultimately show ?thesis by simp
qed

lemma collapse_ws_Nil: "collapse_ws u = [] \<longleftrightarrow> u = []"
  by (cases u) auto

lemma collapse_ws_hd: "u \<noteq> [] \<Longrightarrow> \<not> is_space (hd u) \<Longrightarrow> hd (collapse_ws u) = hd u"
  by (cases u) auto

lemma ws_ok_collapse: "u = [] \<or> \<not> is_space (last u) \<Longrightarrow> ws_ok (collapse_ws u)"
proof (induction u rule: collapse_ws.induct)
  case 1
  then show ?case by simp
next
  case (2 c cs)
  show ?case
  proof (cases "is_space c")
    case True
    let ?d = "dropWhile is_space cs"
    from 2(3) True have cs: "cs \<noteq> []" "\<not> is_space (last cs)" by (auto split: if_splits)
    then have d: "?d \<noteq> []" "last ?d = last cs" using dropWhile_last[of cs is_space] by auto
    then have "\<not> is_space (hd ?d)" using hd_dropWhile[of is_space cs] by simp
    with d have "collapse_ws ?d \<noteq> []" "\<not> is_space (hd (collapse_ws ?d))"
      by (simp_all add: collapse_ws_Nil collapse_ws_hd)
    moreover have "ws_ok (collapse_ws ?d)" using 2(1)[OF True] d cs by simp
    ultimately show ?thesis using True by simp
  next
    case False
    have "ws_ok (collapse_ws cs)" using 2(2)[OF False] 2(3) by (auto split: if_splits)
    with False show ?thesis by simp
  qed
qed

lemma set_collapse_ws: "set (collapse_ws u) \<subseteq> insert 32 (set u)"
proof (induction u rule: collapse_ws.induct)
  case 1
  then show ?case by simp
next
  case (2 c cs)
  then show ?case using set_dropWhileD[of _ is_space cs] by (auto split: if_splits)
qed

lemma normal_stage1: "normal_name (collapse_ws (py_lower (py_strip s)))"
proof -
  let ?p = "py_strip s"
  let ?u = "py_lower ?p"
  have ends: "?u = [] \<or> (\<not> is_space (hd ?u) \<and> \<not> is_space (last ?u))"
  proof (cases "?p = []")
    case True
    then show ?thesis by (simp add: py_lower_def)
  next
    case False
    then show ?thesis using py_strip_ends[OF False]
      by (simp add: py_lower_def hd_map last_map is_space_lower_cp)
  qed
  then have "ws_ok (collapse_ws ?u)" by (intro ws_ok_collapse) auto
  moreover have "collapse_ws ?u \<noteq> [] \<longrightarrow> \<not> is_space (hd (collapse_ws ?u))"
    using ends by (auto simp: collapse_ws_Nil collapse_ws_hd)
  moreover have "\<forall>c\<in>set (collapse_ws ?u). lower_cp c = c"
    using set_collapse_ws[of ?u] by (auto simp: py_lower_def lower_cp_idem lower_cp_32)
  ultimately show ?thesis by (simp add: normal_name_def)
qed

lemma normal_sub_prefix: "normal_name t \<Longrightarrow> normal_name (sub_prefix t)"
proof (cases "first_alternative name_prefixes t")
  case None
  assume "normal_name t"
  with None show ?thesis by (simp add: sub_prefix_def)
next
  case (Some p)
  assume n: "normal_name t"
  let ?r = "dropWhile is_space (drop (length p) t)"
  have "ws_ok ?r" using n by (simp add: normal_name_def ws_ok_drop ws_ok_dropWhile)
  moreover have "?r \<noteq> [] \<longrightarrow> \<not> is_space (hd ?r)" using hd_dropWhile[of is_space] by blast
  moreover have "\<forall>c\<in>set ?r. lower_cp c = c"
    using n set_dropWhileD[of _ is_space "drop (length p) t"] in_set_dropD[of _ "length p" t]
    by (auto simp: normal_name_def)
  ultimately show ?thesis using Some by (simp add: sub_prefix_def normal_name_def)
qed

lemma suffix_here_space: "is_space c \<Longrightarrow> suffix_here (c # cs) = suffix_here cs"
  by (simp add: suffix_here_def)

lemma suffix_here_Nil: "\<not> suffix_here []"
  by (simp add: suffix_here_def name_suffixes_def)

lemma sub_suffix_Nil: "sub_suffix t = [] \<longleftrightarrow> t = [] \<or> suffix_here t"
  by (cases t) auto

lemma sub_suffix_hd: "sub_suffix t \<noteq> [] \<Longrightarrow> hd (sub_suffix t) = hd t"
  by (cases t) (auto split: if_splits)

lemma set_sub_suffix: "set (sub_suffix t) \<subseteq> set t"
  by (induction t) auto

lemma ws_ok_sub_suffix: "ws_ok t \<Longrightarrow> ws_ok (sub_suffix t)"
proof (induction t)
  case Nil
  then show ?case by simp
next
  case (Cons c cs)
  show ?case
  proof (cases "suffix_here (c # cs)")
    case True
    then show ?thesis by simp
  next
    case False
    from Cons have ok: "ws_ok (sub_suffix cs)" by simp
    have "is_space c \<longrightarrow> c = 32 \<and> sub_suffix cs \<noteq> [] \<and> \<not> is_space (hd (sub_suffix cs))"
    proof
      assume sp: "is_space c"
      with Cons.prems have c: "c = 32" "cs \<noteq> []" "\<not> is_space (hd cs)" by auto
      from sp False have "\<not> suffix_here cs" by (simp add: suffix_here_space)
      with c have "sub_suffix cs \<noteq> []" by (simp add: sub_suffix_Nil)
      with c show "c = 32 \<and> sub_suffix cs \<noteq> [] \<and> \<not> is_space (hd (sub_suffix cs))"
        by (simp add: sub_suffix_hd)
    qed
    with ok False show ?thesis by simp
  qed
qed

lemma normal_sub_suffix: "normal_name t \<Longrightarrow> normal_name (sub_suffix t)"
  using set_sub_suffix[of t]
  by (auto simp: normal_name_def ws_ok_sub_suffix sub_suffix_hd)

lemma normal_clean: "normal_name (clean_material_name s)"
  by (simp add: clean_material_name_def normal_sub_suffix normal_sub_prefix normal_stage1)
    (simp add: normal_name_def)


lemma starts_with_iff: "starts_with p s \<longleftrightarrow> (\<exists>r. s = p @ r)"
  by (induction p s rule: starts_with.induct) auto

lemma ends_with_iff: "ends_with q s \<longleftrightarrow> (\<exists>r. s = r @ q)"
proof
  assume "ends_with q s"
  then obtain r where "rev s = rev q @ r" by (auto simp: ends_with_def starts_with_iff)
  then have "s = rev r @ q" by (metis rev_append rev_rev_ident)
  then show "\<exists>r. s = r @ q" ..
next
  assume "\<exists>r. s = r @ q"
  then show "ends_with q s" by (auto simp: ends_with_def starts_with_iff)
qed

lemma first_alternative_None:
  "first_alternative ps t = None \<longleftrightarrow> (\<forall>p\<in>set ps. \<not> starts_with p t)"
  by (induction ps) auto

lemma first_alternative_Some:
  "first_alternative ps t = Some p \<Longrightarrow> p \<in> set ps \<and> starts_with p t"
  by (induction ps) (auto split: if_splits)

lemma suffix_here_ends: "suffix_here v \<Longrightarrow> \<exists>q\<in>set name_suffixes. ends_with q (u @ v)"
proof -
  assume "suffix_here v"
  then have q: "dropWhile is_space v \<in> set name_suffixes" by (simp add: suffix_here_def)
  have "u @ v = (u @ takeWhile is_space v) @ dropWhile is_space v" by simp
  then have "ends_with (dropWhile is_space v) (u @ v)" unfolding ends_with_iff by blast
  with q show ?thesis by blast
qed

lemma sub_suffix_id:
  "(\<forall>q\<in>set name_suffixes. \<not> ends_with q (u @ t)) \<Longrightarrow> sub_suffix t = t"
proof (induction t arbitrary: u)
  case Nil
  then show ?case by simp
next
  case (Cons c cs)
  from Cons.prems have "\<not> suffix_here (c # cs)" using suffix_here_ends[of "c # cs" u] by blast
  moreover have "sub_suffix cs = cs" using Cons.IH[of "u @ [c]"] Cons.prems by simp
  ultimately show ?case by simp
qed

lemma length_sub_suffix: "length (sub_suffix t) \<le> length t"
  by (induction t) auto

lemma sub_suffix_cut: "suffix_here v \<Longrightarrow> length (sub_suffix (u @ v)) \<le> length u"
proof (induction u)
  case Nil
  then show ?case by (cases v) (auto simp: suffix_here_Nil)
next
  case (Cons c u)
  then show ?case by simp
qed

lemma suffix_here_alternative: "q \<in> set name_suffixes \<Longrightarrow> suffix_here q"
  by (auto simp: suffix_here_def name_suffixes_def is_space_def)

lemma name_prefixes_nonempty: "p \<in> set name_prefixes \<Longrightarrow> p \<noteq> []"
  by (auto simp: name_prefixes_def)

lemma name_suffixes_nonempty: "q \<in> set name_suffixes \<Longrightarrow> q \<noteq> []"
  by (auto simp: name_suffixes_def)

lemma clean_normal: "normal_name c \<Longrightarrow> clean_material_name c = sub_suffix (sub_prefix c)"
proof -
  assume n: "normal_name c"
  show ?thesis
  proof (cases "c = []")
    case True
    then show ?thesis
      by (simp add: clean_material_name_def sub_prefix_def name_prefixes_def)
  next
    case False
    with n have "py_strip c = c"
      by (intro py_strip_fixed) (simp add: normal_name_def ws_ok_last)
    moreover from n have "py_lower c = c" by (simp add: normal_name_def py_lower_def map_idI)
    moreover from n have "collapse_ws c = c" by (simp add: normal_name_def collapse_ws_fixed)
    ultimately show ?thesis using False by (simp add: clean_material_name_def)
  qed
qed

lemma length_sub_prefix: "length (sub_prefix t) \<le> length t"
  by (auto simp: sub_prefix_def split: option.splits
      intro: order_trans[OF length_dropWhile_le])

lemma sub_prefix_shorter:
  assumes "p \<in> set name_prefixes" "starts_with p t"
  shows "length (sub_prefix t) < length t"
proof -
  from assms obtain p' where p': "first_alternative name_prefixes t = Some p'"
    by (cases "first_alternative name_prefixes t") (auto simp: first_alternative_None)
  then have "p' \<in> set name_prefixes" "starts_with p' t" by (auto dest: first_alternative_Some)
  then have "p' \<noteq> []" "length p' \<le> length t"
    by (auto simp: name_prefixes_nonempty starts_with_iff)
  then have "length (drop (length p') t) < length t" by (cases p') auto
  with p' show ?thesis
    using length_dropWhile_le[of is_space "drop (length p') t"] by (simp add: sub_prefix_def)
qed

lemma sub_prefix_id:
  assumes "\<forall>p\<in>set name_prefixes. \<not> starts_with p t"
  shows "sub_prefix t = t"
proof -
  from assms have "first_alternative name_prefixes t = None"
    by (simp only: first_alternative_None)
  then show ?thesis by (simp add: sub_prefix_def)
qed

lemmas clean_eval =
  clean_material_name_def sub_prefix_def name_prefixes_def name_suffixes_def suffix_here_def
  py_lower_def py_strip_def is_space_def lower_cp_def

lemma clean_ex_cement:
  "clean_material_name ex_cement = [1094, 1077, 1084, 1077, 1085, 1090, 32, 1084, 53, 48, 48]"
  by (simp add: clean_eval ex_cement_def)

text \<open>
  C3 (as stated, refuted). Normalizing \<open>material material\<close> gives \<open>material\<close>, and
  normalizing that gives the empty name: one pass removes one prefix word, so the
  function is not idempotent.
\<close>

theorem clean_material_name_not_idempotent:
  "clean_material_name ex_material_twice = [1084, 1072, 1090, 1077, 1088, 1080, 1072, 1083] \<and>
   clean_material_name (clean_material_name ex_material_twice) = [] \<and>
   clean_material_name (clean_material_name ex_material_twice) \<noteq> clean_material_name ex_material_twice"
  by (simp add: clean_eval ex_material_twice_def)

text \<open>
  C3 (amended). A second pass leaves a normalized name unchanged exactly when the
  result of the first pass neither starts with one of the prefix words nor ends with
  one of the suffixes; otherwise the second pass strips again.
\<close>

theorem clean_material_name_idempotent_iff:
  "clean_material_name (clean_material_name s) = clean_material_name s \<longleftrightarrow>
     (\<forall>p\<in>set name_prefixes. \<not> starts_with p (clean_material_name s)) \<and>
     (\<forall>q\<in>set name_suffixes. \<not> ends_with q (clean_material_name s))"
  (is "?L \<longleftrightarrow> ?P \<and> ?S")
proof -
  let ?c = "clean_material_name s"
  have cc: "clean_material_name ?c = sub_suffix (sub_prefix ?c)"
    by (rule clean_normal) (rule normal_clean)
  show ?thesis
  proof
    assume ps: "?P \<and> ?S"
    then have "sub_prefix ?c = ?c" by (intro sub_prefix_id) simp
    moreover from ps have "sub_suffix ?c = ?c" using sub_suffix_id[of "[]" ?c] by simp
    ultimately show ?L using cc by simp
  next
    assume L: ?L
    have "?P"
    proof (rule ccontr)
      assume "\<not> ?P"
      then obtain p where "p \<in> set name_prefixes" "starts_with p ?c" by blast
      then have "length (sub_prefix ?c) < length ?c" by (rule sub_prefix_shorter)
      then have "length (sub_suffix (sub_prefix ?c)) < length ?c"
        using length_sub_suffix[of "sub_prefix ?c"] by simp
      with L cc show False by simp
    qed
    moreover have "?S"
    proof (rule ccontr)
      assume "\<not> ?S"
      then obtain q r where q: "q \<in> set name_suffixes" and r: "?c = r @ q"
        by (auto simp: ends_with_iff)
      from \<open>?P\<close> have sp: "sub_prefix ?c = ?c" by (rule sub_prefix_id)
      from q have "length (sub_suffix (r @ q)) \<le> length r"
        by (intro sub_suffix_cut suffix_here_alternative)
      moreover from q have "0 < length q" using name_suffixes_nonempty[of q] by simp
      ultimately have "length (sub_suffix (r @ q)) < length (r @ q)" by (cases q) simp_all
      then have "length (sub_suffix ?c) < length ?c" by (simp only: r)
      with L cc sp show False by simp
    qed
    ultimately show "?P \<and> ?S" ..
  qed
qed

theorem clean_material_name_idempotent_witness:
  "clean_material_name (clean_material_name ex_cement) = clean_material_name ex_cement"
  using clean_material_name_idempotent_iff[of ex_cement]
  by (simp add: clean_ex_cement name_prefixes_def name_suffixes_def ends_with_def)

section \<open>Price selection\<close>

lemma set_insert_row: "set (insert_row le x ys) = insert x (set ys)"
  by (induction ys) auto

lemma set_order_by: "set (order_by le xs) = set xs"
  by (induction xs) (auto simp: order_by_def set_insert_row)

lemma order_by_Cons: "order_by le (x # xs) = insert_row le x (order_by le xs)"
  by (simp add: order_by_def)

lemma order_by_empty: "order_by le [] = []"
  by (simp add: order_by_def)

lemma order_by_Nil: "order_by le xs = [] \<longleftrightarrow> xs = []"
  using set_order_by[of le xs] by (metis set_empty)

lemma order_by_head_least:
  assumes refl: "\<And>a. le a a"
    and total: "\<And>a b. \<not> le a b \<Longrightarrow> le b a"
    and trans: "\<And>a b c. le a b \<Longrightarrow> le b c \<Longrightarrow> le a c"
  shows "order_by le xs = r # rest \<Longrightarrow> c \<in> set xs \<Longrightarrow> le r c"
proof (induction xs arbitrary: r rest c)
  case Nil
  then show ?case by simp
next
  case (Cons x xs)
  show ?case
  proof (cases "order_by le xs")
    case Nil
    then have "xs = []" by (simp add: order_by_Nil)
    with Cons.prems Nil show ?thesis by (auto simp: order_by_Cons refl)
  next
    case (Cons y ys)
    have least: "\<And>c. c \<in> set xs \<Longrightarrow> le y c" using Cons.IH[OF Cons] by blast
    show ?thesis
    proof (cases "le x y")
      case True
      with Cons Cons.prems(1) have "r = x" by (simp add: order_by_Cons)
      with True least Cons.prems(2) show ?thesis by (auto intro: refl trans)
    next
      case False
      with Cons Cons.prems(1) have "r = y" by (simp add: order_by_Cons)
      with False least Cons.prems(2) show ?thesis by (auto dest: total)
    qed
  qed
qed

lemma price_order_refl: "price_order p a a"
  by (simp add: price_order_def)

lemma price_order_total: "\<not> price_order p a b \<Longrightarrow> price_order p b a"
  by (auto simp: price_order_def)

lemma price_order_trans: "price_order p a b \<Longrightarrow> price_order p b c \<Longrightarrow> price_order p a c"
  by (auto simp: price_order_def)

lemma price_candidates_iff:
  "r \<in> set (price_candidates d material_id as_of) \<longleftrightarrow>
     fst r \<in> set (material_prices d) \<and> snd r \<in> set (price_sources d) \<and>
     price_source_id (fst r) = src_id (snd r) \<and> price_material_id (fst r) = material_id \<and>
     is_active (fst r) \<and> price_date (fst r) \<le> as_of"
  by (cases r) (auto simp: price_candidates_def)

lemma get_current_price_None:
  "get_current_price d today material_id calculation_date customer_id = None \<longleftrightarrow>
     price_candidates d material_id (as_of_date today calculation_date) = []"
  by (cases "order_by (price_order (preferred_type_of d customer_id)) (price_candidates d material_id (as_of_date today calculation_date))")
     (auto simp: get_current_price_def fetchone_def Let_def order_by_Nil order_by_empty)

lemma get_current_price_Some:
  assumes "get_current_price d today material_id calculation_date customer_id = Some r"
  shows "r \<in> set (price_candidates d material_id (as_of_date today calculation_date))"
    and "\<And>c. c \<in> set (price_candidates d material_id (as_of_date today calculation_date)) \<Longrightarrow>
              price_order (preferred_type_of d customer_id) r c"
proof -
  let ?cs = "price_candidates d material_id (as_of_date today calculation_date)"
  let ?le = "price_order (preferred_type_of d customer_id)"
  from assms obtain rest where o: "order_by ?le ?cs = r # rest"
    by (cases "order_by ?le ?cs") (auto simp: get_current_price_def fetchone_def Let_def)
  then have "r \<in> set (order_by ?le ?cs)" by simp
  then show "r \<in> set ?cs" by (simp add: set_order_by)
  fix c assume "c \<in> set ?cs"
  with o show "?le r c"
    using order_by_head_least[of ?le ?cs r rest c]
    by (blast intro: price_order_refl price_order_trans dest: price_order_total)
qed

lemmas price_eval =
  get_current_price_def as_of_date_def preferred_type_of_def truthy_int_def price_candidates_def
  order_by_def price_order_def source_rank_def fetchone_def
  ex_price_db_def ex_invoice_source_def ex_manual_source_def
  ex_price_100_def ex_price_110_def ex_price_90_def

lemma fetchone_filter: "fetchone (filter P xs) = find P xs"
  by (induction xs) (auto simp: fetchone_def)

lemma as_of_date_given: "s \<noteq> [] \<Longrightarrow> as_of_date today (Some s) = s"
  by (simp add: as_of_date_def)

lemma as_of_date_omitted: "as_of_date today None = today" "as_of_date today (Some []) = today"
  by (simp_all add: as_of_date_def)

lemma preferred_type_of_absent:
  "preferred_type_of d None = Some ''invoice''" "preferred_type_of d (Some 0) = Some ''invoice''"
  by (simp_all add: preferred_type_of_def truthy_int_def)

lemma preferred_type_of_customer:
  "c \<noteq> 0 \<Longrightarrow> preferred_type_of d (Some c) =
     (case find (\<lambda>x. cust_id x = c) (customers d) of
        None \<Rightarrow> Some ''invoice'' | Some cu \<Rightarrow> preferred_price_source_type cu)"
  by (simp add: preferred_type_of_def truthy_int_def fetchone_filter)

lemma preferred_type_of_unknown:
  "c \<noteq> 0 \<Longrightarrow> \<forall>cu\<in>set (customers d). cust_id cu \<noteq> c \<Longrightarrow>
     preferred_type_of d (Some c) = Some ''invoice''"
proof -
  assume c: "c \<noteq> 0" and none: "\<forall>cu\<in>set (customers d). cust_id cu \<noteq> c"
  from none have "find (\<lambda>x. cust_id x = c) (customers d) = None"
    by (simp add: find_None_iff)
  with c show ?thesis by (simp add: preferred_type_of_customer)
qed

lemma preferred_type_of_known:
  "c \<noteq> 0 \<Longrightarrow> find (\<lambda>x. cust_id x = c) (customers d) = Some cu \<Longrightarrow>
     preferred_type_of d (Some c) = preferred_price_source_type cu"
  by (simp add: preferred_type_of_customer)

lemma get_current_price_example:
  "get_current_price ex_price_db ''2024-06-01'' ''m1'' (Some ''2024-03-15'') None
     = Some (ex_price_110, ex_invoice_source)"
  by (simp add: price_eval)

text \<open>
  C1. For every material, as-of date and customer context: the as-of date is the date
  given, or today when it is omitted (or empty); the preferred type is the stored
  preference of the customer given, or \<open>invoice\<close> when no customer is given (\<open>None\<close>
  or 0) or the customer is unknown. The candidates of \<open>get_current_price\<close> are exactly
  the active price rows of the material dated on or before the as-of date (each joined
  with its price source). The result is \<open>None\<close> exactly when there is no candidate;
  otherwise it is a candidate that is first in the order by source rank (preferred type
  1, invoice 2, website 3, manual 4, any other 5), then by price date descending, so a
  price dated after the as-of date is never returned. In the example history, the
  selection as of 2024-03-15 without a customer is the invoice price of 2024-03-01,
  110; for customer 5, who prefers manual prices, it is the manual price, 90.
\<close>

theorem get_current_price_selection:
  "(let as_of = as_of_date today calculation_date;
        preferred = preferred_type_of d customer_id;
        rank = (\<lambda>r. source_rank preferred (src_type (snd r)));
        candidate = (\<lambda>r. fst r \<in> set (material_prices d) \<and> snd r \<in> set (price_sources d) \<and>
                          price_source_id (fst r) = src_id (snd r) \<and>
                          price_material_id (fst r) = material_id \<and>
                          is_active (fst r) \<and> price_date (fst r) \<le> as_of);
        result = get_current_price d today material_id calculation_date customer_id
    in (result = None \<longleftrightarrow> (\<forall>r. \<not> candidate r)) \<and>
       (\<forall>r. result = Some r \<longrightarrow>
          candidate r \<and> price_date (fst r) \<le> as_of \<and>
          (\<forall>r'. candidate r' \<longrightarrow>
             rank r < rank r' \<or> (rank r = rank r' \<and> price_date (fst r') \<le> price_date (fst r))))) \<and>
   as_of_date today None = today \<and>
   as_of_date today (Some []) = today \<and>
   (\<forall>s. s \<noteq> [] \<longrightarrow> as_of_date today (Some s) = s) \<and>
   preferred_type_of d None = Some ''invoice'' \<and>
   preferred_type_of d (Some 0) = Some ''invoice'' \<and>
   (\<forall>c. c \<noteq> 0 \<and> (\<forall>cu\<in>set (customers d). cust_id cu \<noteq> c) \<longrightarrow>
      preferred_type_of d (Some c) = Some ''invoice'') \<and>
   (\<forall>c cu. c \<noteq> 0 \<and> find (\<lambda>x. cust_id x = c) (customers d) = Some cu \<longrightarrow>
      preferred_type_of d (Some c) = preferred_price_source_type cu) \<and>
   (\<forall>p t. source_rank p t =
      (if p = Some t then 1 else if t = ''invoice'' then 2 else if t = ''website'' then 3
       else if t = ''manual'' then 4 else 5)) \<and>
   get_current_price ex_price_db today ''m1'' (Some ''2024-03-15'') None
     = Some (ex_price_110, ex_invoice_source) \<and>
   price (fst (ex_price_110, ex_invoice_source)) = Some 110 \<and>
   get_current_price ex_price_db today ''m1'' (Some ''2024-03-15'') (Some 5)
     = Some (ex_price_90, ex_manual_source) \<and>
   price (fst (ex_price_90, ex_manual_source)) = Some 90"
proof -
  let ?as_of = "as_of_date today calculation_date"
  let ?res = "get_current_price d today material_id calculation_date customer_id"
  let ?cs = "price_candidates d material_id ?as_of"
  have none: "?res = None \<longleftrightarrow> (\<forall>r. r \<notin> set ?cs)"
    by (simp add: get_current_price_None)
  have some: "\<And>r. ?res = Some r \<Longrightarrow>
      r \<in> set ?cs \<and> (\<forall>r'. r' \<in> set ?cs \<longrightarrow> price_order (preferred_type_of d customer_id) r r')"
    using get_current_price_Some by blast
  have general: "(?res = None \<longleftrightarrow> (\<forall>r. r \<notin> set ?cs)) \<and>
     (\<forall>r. ?res = Some r \<longrightarrow> r \<in> set ?cs \<and> price_date (fst r) \<le> ?as_of \<and>
        (\<forall>r'. r' \<in> set ?cs \<longrightarrow> price_order (preferred_type_of d customer_id) r r'))"
    using none some by (auto simp: price_candidates_iff)
  have ex: "get_current_price ex_price_db today ''m1'' (Some ''2024-03-15'') None
     = Some (ex_price_110, ex_invoice_source)"
    by (simp add: price_eval)
  have ex5: "get_current_price ex_price_db today ''m1'' (Some ''2024-03-15'') (Some 5)
     = Some (ex_price_90, ex_manual_source)"
    by (simp add: price_eval)
  have rank: "\<forall>p t. source_rank p t =
      (if p = Some t then 1 else if t = ''invoice'' then 2 else if t = ''website'' then 3
       else if t = ''manual'' then 4 else 5)"
    by (auto simp: source_rank_def)
  have dates: "as_of_date today None = today" "as_of_date today (Some []) = today"
    "\<forall>s. s \<noteq> [] \<longrightarrow> as_of_date today (Some s) = s"
    by (simp_all add: as_of_date_omitted as_of_date_given)
  have prefs: "preferred_type_of d None = Some ''invoice''"
    "preferred_type_of d (Some 0) = Some ''invoice''"
    "\<forall>c. c \<noteq> 0 \<and> (\<forall>cu\<in>set (customers d). cust_id cu \<noteq> c) \<longrightarrow>
       preferred_type_of d (Some c) = Some ''invoice''"
    "\<forall>c cu. c \<noteq> 0 \<and> find (\<lambda>x. cust_id x = c) (customers d) = Some cu \<longrightarrow>
       preferred_type_of d (Some c) = preferred_price_source_type cu"
    using preferred_type_of_unknown[of _ d] preferred_type_of_known[of _ d]
    by (simp_all add: preferred_type_of_absent)
  have prices: "price (fst (ex_price_110, ex_invoice_source)) = Some 110"
    "price (fst (ex_price_90, ex_manual_source)) = Some 90"
    by (simp_all add: ex_price_110_def ex_price_90_def)
  from general have sel: "(let as_of = as_of_date today calculation_date;
        preferred = preferred_type_of d customer_id;
        rank = (\<lambda>r. source_rank preferred (src_type (snd r)));
        candidate = (\<lambda>r. fst r \<in> set (material_prices d) \<and> snd r \<in> set (price_sources d) \<and>
                          price_source_id (fst r) = src_id (snd r) \<and>
                          price_material_id (fst r) = material_id \<and>
                          is_active (fst r) \<and> price_date (fst r) \<le> as_of);
        result = get_current_price d today material_id calculation_date customer_id
    in (result = None \<longleftrightarrow> (\<forall>r. \<not> candidate r)) \<and>
       (\<forall>r. result = Some r \<longrightarrow>
          candidate r \<and> price_date (fst r) \<le> as_of \<and>
          (\<forall>r'. candidate r' \<longrightarrow>
             rank r < rank r' \<or> (rank r = rank r' \<and> price_date (fst r') \<le> price_date (fst r)))))"
    unfolding Let_def price_candidates_iff price_order_def by blast
  show ?thesis
    by (intro conjI sel dates prefs rank ex ex5 prices)
qed

theorem get_current_price_selection_witness:
  "get_current_price ex_price_db ''2024-06-01'' ''m1'' (Some ''2024-03-15'') (Some 5)
     = Some (ex_price_90, ex_manual_source) \<and>
   price_date ex_price_90 \<le> ''2024-03-15'' \<and>
   find (\<lambda>x. cust_id x = 5) (customers ex_price_db)
     = Some \<lparr>cust_id = 5, preferred_price_source_type = Some ''manual''\<rparr> \<and>
   preferred_type_of ex_price_db (Some 5) = Some ''manual'' \<and>
   source_rank (Some ''manual'') (src_type ex_manual_source)
     < source_rank (Some ''manual'') (src_type ex_invoice_source) \<and>
   as_of_date ''2024-06-01'' (Some ''2024-03-15'') = ''2024-03-15''"
  using get_current_price_selection[where d = ex_price_db and today = "''2024-06-01''"
      and material_id = "''m1''" and calculation_date = "Some ''2024-03-15''"
      and customer_id = "Some 5"]
  by (simp add: price_eval)

section \<open>The resolver\<close>

lemma get_material_by_name_Some:
  "get_material_by_name d n u = Some m \<Longrightarrow>
     m \<in> set (materials d) \<and> active m \<and> name_canonical m = n \<and> m_unit m = u"
  by (auto simp: get_material_by_name_def fetchone_filter find_Some_iff)

lemma get_material_by_name_exists:
  "m \<in> set (materials d) \<Longrightarrow> active m \<Longrightarrow> name_canonical m = n \<Longrightarrow> m_unit m = u \<Longrightarrow>
     \<exists>m'. get_material_by_name d n u = Some m'"
  by (cases "get_material_by_name d n u")
     (auto simp: get_material_by_name_def fetchone_filter find_None_iff)

lemma get_material_by_name_aliases:
  "get_material_by_name (d\<lparr>material_aliases := al\<rparr>) n u = get_material_by_name d n u"
  by (simp add: get_material_by_name_def)

lemma match_material_exact:
  "name \<noteq> [] \<Longrightarrow> unit \<noteq> [] \<Longrightarrow> get_material_by_name d (clean_material_name name) unit = Some m \<Longrightarrow>
     match_material d (Some name) (Some unit) article customer_id = Some m"
  by (simp add: match_material_def)

lemma match_material_alias:
  assumes "name \<noteq> []"
    and "unit = None \<or> unit = Some [] \<or>
         (\<exists>u. unit = Some u \<and> get_material_by_name d (clean_material_name name) u = None)"
  shows "match_material d (Some name) unit article customer_id =
     (case find_material_by_alias d (clean_material_name name) customer_id of
        [] \<Rightarrow> None | m # _ \<Rightarrow> Some m)"
  using assms by (auto simp: match_material_def Let_def split: option.splits)

lemma concat_map_filter:
  "(\<And>x. x \<in> set xs \<Longrightarrow> \<not> ok x \<Longrightarrow> f x = []) \<Longrightarrow>
     concat (map f (filter ok xs)) = concat (map f xs)"
  by (induction xs) auto

lemma alias_join_cong:
  assumes "materials d' = materials d"
    and "filter ok (material_aliases d') = filter ok (material_aliases d)"
    and "\<And>m a. keep m a \<Longrightarrow> ok a"
  shows "alias_join d' keep = alias_join d keep"
proof -
  let ?f = "\<lambda>a. map (\<lambda>m. (m, a))
       (filter (\<lambda>m. m_id m = alias_material_id a \<and> keep m a) (materials d))"
  have drop: "\<And>a. \<not> ok a \<Longrightarrow> ?f a = []"
    using assms(3) by (auto simp: filter_empty_conv)
  have "alias_join d' keep = concat (map ?f (material_aliases d'))"
    by (simp add: alias_join_def assms(1))
  also have "\<dots> = concat (map ?f (filter ok (material_aliases d')))"
    by (rule concat_map_filter[symmetric]) (rule drop)
  also have "\<dots> = concat (map ?f (filter ok (material_aliases d)))"
    by (simp only: assms(2))
  also have "\<dots> = concat (map ?f (material_aliases d))"
    by (rule concat_map_filter) (rule drop)
  also have "\<dots> = alias_join d keep"
    by (simp add: alias_join_def)
  finally show ?thesis .
qed

lemma find_material_by_alias_isolated:
  assumes "b \<noteq> 0" "a \<noteq> b" "materials d' = materials d"
    and "filter (\<lambda>x. alias_customer_id x \<noteq> Some a) (material_aliases d')
       = filter (\<lambda>x. alias_customer_id x \<noteq> Some a) (material_aliases d)"
  shows "find_material_by_alias d' alias (Some b) = find_material_by_alias d alias (Some b)"
proof -
  have "alias_join d' (\<lambda>m x. alias_name x = alias \<and>
          (alias_customer_id x = Some b \<or> alias_customer_id x = None) \<and> active m)
      = alias_join d (\<lambda>m x. alias_name x = alias \<and>
          (alias_customer_id x = Some b \<or> alias_customer_id x = None) \<and> active m)"
    using assms(3,4) by (rule alias_join_cong) (use assms(2) in auto)
  with assms(1) show ?thesis by (simp add: find_material_by_alias_def alias_rows_def truthy_int_def)
qed

lemma alias_join_empty:
  "(\<And>m a. a \<in> set (material_aliases d) \<Longrightarrow> \<not> keep m a) \<Longrightarrow> alias_join d keep = []"
  by (auto simp: alias_join_def filter_empty_conv)

lemmas resolver_eval =
  match_material_def get_material_by_name_def find_material_by_alias_def alias_rows_def
  alias_join_def truthy_int_def fetchone_def asc_def
  ex_catalog_def ex_m1_def ex_m2_def ex_alias_global_def ex_alias_cust7_def ex_alias_cust8_def
  ex_alias_clash_def

lemma set_alias_join:
  "(m, a) \<in> set (alias_join d keep) \<longleftrightarrow>
     m \<in> set (materials d) \<and> a \<in> set (material_aliases d) \<and>
     m_id m = alias_material_id a \<and> keep m a"
  by (auto simp: alias_join_def)

lemma set_find_material_by_alias:
  assumes "truthy_int customer_id"
  shows "m \<in> set (find_material_by_alias d alias customer_id) \<longleftrightarrow>
     m \<in> set (materials d) \<and> active m \<and>
     (\<exists>a\<in>set (material_aliases d). alias_material_id a = m_id m \<and> alias_name a = alias \<and>
        (alias_customer_id a = customer_id \<or> alias_customer_id a = None))"
proof -
  let ?keep = "\<lambda>m a. alias_name a = alias \<and>
     (alias_customer_id a = customer_id \<or> alias_customer_id a = None) \<and> active m"
  have "find_material_by_alias d alias customer_id = map fst (alias_join d ?keep)"
    using assms by (simp add: find_material_by_alias_def alias_rows_def)
  then have "m \<in> set (find_material_by_alias d alias customer_id) \<longleftrightarrow>
      (\<exists>a. (m, a) \<in> set (alias_join d ?keep))"
    by (simp add: image_iff Bex_def)
  also have "\<dots> \<longleftrightarrow> (\<exists>a. m \<in> set (materials d) \<and> a \<in> set (material_aliases d) \<and>
      m_id m = alias_material_id a \<and> ?keep m a)"
    by (simp only: set_alias_join)
  also have "\<dots> \<longleftrightarrow> m \<in> set (materials d) \<and> active m \<and>
     (\<exists>a\<in>set (material_aliases d). alias_material_id a = m_id m \<and> alias_name a = alias \<and>
        (alias_customer_id a = customer_id \<or> alias_customer_id a = None))"
    by (rule iffI; (elim exE conjE bexE | -); metis)
  finally show ?thesis .
qed

text \<open>
  C2. For every raw name with a unit supplied (a name and a unit that Python reads as
  present, that is, not empty): if an active material exists whose canonical name
  equals the normalized raw name and whose unit equals the raw unit verbatim, the
  resolver returns the first such material of the store (that very material when the
  pair of name and unit is unique), whatever the alias table holds; so an exact match
  wins over any alias match.
\<close>

theorem match_material_exact_priority:
  assumes "name \<noteq> []" and "unit \<noteq> []"
    and "m \<in> set (materials d)" and "active m"
    and "name_canonical m = clean_material_name name" and "m_unit m = unit"
  shows "\<exists>m'. match_material (d\<lparr>material_aliases := al\<rparr>) (Some name) (Some unit) article customer_id
             = Some m' \<and>
           find (\<lambda>x. name_canonical x = clean_material_name name \<and> m_unit x = unit \<and> active x)
             (materials d) = Some m' \<and>
           m' \<in> set (materials d) \<and> active m' \<and>
           name_canonical m' = clean_material_name name \<and> m_unit m' = unit \<and>
           ((\<forall>x\<in>set (materials d).
               active x \<and> name_canonical x = name_canonical m \<and> m_unit x = m_unit m \<longrightarrow> x = m)
            \<longrightarrow> m' = m)"
proof -
  from assms(3-6) obtain m' where
    m': "get_material_by_name d (clean_material_name name) unit = Some m'"
    using get_material_by_name_exists by blast
  then have "get_material_by_name (d\<lparr>material_aliases := al\<rparr>) (clean_material_name name) unit
      = Some m'"
    by (simp add: get_material_by_name_aliases)
  with assms(1,2) have
    "match_material (d\<lparr>material_aliases := al\<rparr>) (Some name) (Some unit) article customer_id = Some m'"
    by (rule match_material_exact)
  moreover from m' have
    "find (\<lambda>x. name_canonical x = clean_material_name name \<and> m_unit x = unit \<and> active x)
       (materials d) = Some m'"
    by (simp add: get_material_by_name_def fetchone_filter)
  moreover from m' have "m' \<in> set (materials d) \<and> active m' \<and>
      name_canonical m' = clean_material_name name \<and> m_unit m' = unit"
    by (rule get_material_by_name_Some)
  ultimately show ?thesis using assms(5,6) by auto
qed

theorem match_material_exact_priority_witness:
  "match_material (ex_catalog [ex_alias_clash]) (Some (asc '' Concrete  B25 ''))
     (Some (asc ''m3'')) None None = Some ex_m1 \<and>
   find_material_by_alias (ex_catalog [ex_alias_clash])
     (clean_material_name (asc '' Concrete  B25 '')) None = [ex_m2]"
  using match_material_exact_priority[where d = "ex_catalog [ex_alias_clash]"
      and al = "[ex_alias_clash]" and name = "asc '' Concrete  B25 ''" and unit = "asc ''m3''"
      and m = ex_m1 and article = None and customer_id = None]
  by (simp add: resolver_eval clean_eval)

text \<open>
  C4 (as stated, refuted). The text \<open>b25\<close> is an alias of the second material for
  customer 7 and a global alias of the first, both active. Looked up in the context of
  customer 7, the store yields the material of the global alias first, and the resolver
  returns it.
\<close>

theorem match_material_alias_precedence_counterexample:
  "material_aliases (ex_catalog [ex_alias_global, ex_alias_cust7])
     = [ex_alias_global, ex_alias_cust7] \<and>
   alias_name ex_alias_cust7 = clean_material_name (asc ''B25'') \<and>
   alias_customer_id ex_alias_cust7 = Some 7 \<and> alias_material_id ex_alias_cust7 = m_id ex_m2 \<and>
   alias_name ex_alias_global = clean_material_name (asc ''B25'') \<and>
   alias_customer_id ex_alias_global = None \<and> alias_material_id ex_alias_global = m_id ex_m1 \<and>
   active ex_m1 \<and> active ex_m2 \<and> ex_m1 \<noteq> ex_m2 \<and>
   find_material_by_alias (ex_catalog [ex_alias_global, ex_alias_cust7])
     (clean_material_name (asc ''B25'')) (Some 7) = [ex_m1, ex_m2] \<and>
   match_material (ex_catalog [ex_alias_global, ex_alias_cust7])
     (Some (asc ''B25'')) None None (Some 7) = Some ex_m1"
  by (simp add: resolver_eval clean_eval)

text \<open>
  C4 (amended). In alias lookup with a customer context (a non-empty name, and no unit
  or no exact match), the aliases scoped to the given customer and the global aliases
  are equally valid matches: the rows of the lookup are the active materials that have
  an alias with the normalized text scoped to that customer or to nobody, and the
  resolver returns the first row in the order the store yields them, or no match when
  there is none. The scope of an alias gives it no precedence.
\<close>

theorem match_material_alias_first_row:
  assumes "name \<noteq> []" and "truthy_int customer_id"
    and "unit = None \<or> unit = Some [] \<or>
         (\<exists>u. unit = Some u \<and> get_material_by_name d (clean_material_name name) u = None)"
  shows "match_material d (Some name) unit article customer_id =
           (case find_material_by_alias d (clean_material_name name) customer_id of
              [] \<Rightarrow> None | m # _ \<Rightarrow> Some m) \<and>
         (\<forall>m. m \<in> set (find_material_by_alias d (clean_material_name name) customer_id) \<longleftrightarrow>
            m \<in> set (materials d) \<and> active m \<and>
            (\<exists>a\<in>set (material_aliases d).
               alias_material_id a = m_id m \<and> alias_name a = clean_material_name name \<and>
               (alias_customer_id a = customer_id \<or> alias_customer_id a = None)))"
  using match_material_alias[OF assms(1,3)] set_find_material_by_alias[OF assms(2)]
  by blast

theorem match_material_alias_first_row_witness:
  "truthy_int (Some 7) \<and>
   match_material (ex_catalog [ex_alias_cust7, ex_alias_cust8]) (Some (asc ''B25'')) None None
     (Some 7) = Some ex_m2 \<and>
   find_material_by_alias (ex_catalog [ex_alias_cust7, ex_alias_cust8])
     (clean_material_name (asc ''B25'')) (Some 7) = [ex_m2]"
  using match_material_alias_first_row[where d = "ex_catalog [ex_alias_cust7, ex_alias_cust8]"
      and name = "asc ''B25''" and unit = None and article = None and customer_id = "Some 7"]
  by (simp add: resolver_eval clean_eval)

text \<open>
  C5. Alias lookups are isolated across customers. Customer ids are the row ids that
  the store assigns, so a customer's id is not 0 (which \<open>if customer_id:\<close> reads as no
  customer). For distinct customers \<open>a\<close> and \<open>b\<close>, two stores that differ only in
  aliases scoped to \<open>a\<close> give the same lookup result in the context of \<open>b\<close>; and when
  every alias with the text is scoped to \<open>a\<close>, the lookup for \<open>b\<close> finds nothing.
\<close>

theorem find_material_by_alias_customer_isolation:
  assumes "b \<noteq> 0" and "a \<noteq> b"
    and "materials d' = materials d"
    and "filter (\<lambda>x. alias_customer_id x \<noteq> Some a) (material_aliases d')
       = filter (\<lambda>x. alias_customer_id x \<noteq> Some a) (material_aliases d)"
  shows "find_material_by_alias d' alias_text (Some b) = find_material_by_alias d alias_text (Some b) \<and>
         ((\<forall>x\<in>set (material_aliases d). alias_name x = alias_text \<longrightarrow> alias_customer_id x = Some a)
          \<longrightarrow> find_material_by_alias d alias_text (Some b) = [])"
proof
  show "find_material_by_alias d' alias_text (Some b) = find_material_by_alias d alias_text (Some b)"
    using assms by (rule find_material_by_alias_isolated)
  show "(\<forall>x\<in>set (material_aliases d). alias_name x = alias_text \<longrightarrow> alias_customer_id x = Some a)
          \<longrightarrow> find_material_by_alias d alias_text (Some b) = []"
  proof
    assume only_a: "\<forall>x\<in>set (material_aliases d). alias_name x = alias_text \<longrightarrow> alias_customer_id x = Some a"
    have "alias_join d (\<lambda>m x. alias_name x = alias_text \<and>
            (alias_customer_id x = Some b \<or> alias_customer_id x = None) \<and> active m) = []"
      using only_a assms(2) by (intro alias_join_empty) auto
    with assms(1) show "find_material_by_alias d alias_text (Some b) = []"
      by (simp add: find_material_by_alias_def alias_rows_def truthy_int_def)
  qed
qed

theorem find_material_by_alias_customer_isolation_witness:
  "find_material_by_alias (ex_catalog [ex_alias_cust7, ex_alias_cust8]) (asc ''b25'') (Some 8)
     = find_material_by_alias (ex_catalog [ex_alias_cust8]) (asc ''b25'') (Some 8) \<and>
   find_material_by_alias (ex_catalog [ex_alias_cust7, ex_alias_cust8]) (asc ''b25'') (Some 8) = [] \<and>
   find_material_by_alias (ex_catalog [ex_alias_cust7, ex_alias_cust8]) (asc ''b25'') (Some 7)
     = [ex_m2]"
  using find_material_by_alias_customer_isolation[where a = 7 and b = 8
      and d' = "ex_catalog [ex_alias_cust7, ex_alias_cust8]" and d = "ex_catalog [ex_alias_cust8]"
      and alias_text = "asc ''b25''"]
  by (simp add: resolver_eval)

section \<open>Column detection\<close>

lemma detect_column_field:
  "detect_column m col = (case column_field col of None \<Rightarrow> m | Some f \<Rightarrow> m(f \<mapsto> col))"
  by (simp add: detect_column_def column_field_def header_matches_def)

lemma foldl_detect_column:
  "foldl detect_column m cols f =
     (case last_matching (\<lambda>c. column_field c = Some f) cols of None \<Rightarrow> m f | Some c \<Rightarrow> Some c)"
proof (induction cols arbitrary: m)
  case Nil
  then show ?case by (simp add: last_matching_def)
next
  case (Cons c cs)
  let ?P = "\<lambda>c. column_field c = Some f"
  have "foldl detect_column m (c # cs) f = foldl detect_column (detect_column m c) cs f"
    by simp
  also have "\<dots> = (case last_matching ?P cs of None \<Rightarrow> detect_column m c f | Some x \<Rightarrow> Some x)"
    by (rule Cons.IH)
  also have "\<dots> = (case last_matching ?P (c # cs) of None \<Rightarrow> m f | Some x \<Rightarrow> Some x)"
    by (cases "column_field c")
       (auto simp: detect_column_field last_matching_def split: list.splits)
  finally show ?case .
qed

lemma detect_columns_last:
  "detect_columns cols f = last_matching (\<lambda>c. column_field c = Some f) cols"
  by (simp add: detect_columns_def foldl_detect_column split: option.splits)

lemmas detect_eval =
  detect_columns_def detect_column_def any_search_def name_patterns_def price_patterns_def
  unit_patterns_def article_patterns_def ed_izm_at_def py_strip_def py_lower_def lower_cp_def
  is_space_def asc_def ex_col_material_def ex_col_unit_def ex_col_price_def

lemma ex_detect2: "detect_columns ex_columns = ex_mapping"
proof (rule ext)
  fix f
  show "detect_columns ex_columns f = ex_mapping f"
    by (cases f) (simp_all add: detect_eval ex_columns_def ex_mapping_def)
qed


text \<open>
  C6 (as stated, refuted). With the headers \<open>Name\<close> and \<open>Product\<close>, both of which
  match the name patterns, the name field is first assigned to column 1 and then
  overwritten with column 2. The header row of the example does not map as claimed
  either: its third header contains the word \<open>materiala\<close>, which matches the name
  patterns, tried before the price patterns, so the name field goes to column 3 and
  no price column is detected.
\<close>

theorem detect_columns_overwrite_counterexample:
  "detect_columns [asc ''Name''] FName = Some (asc ''Name'') \<and>
   detect_columns [asc ''Name'', asc ''Product''] FName = Some (asc ''Product'') \<and>
   asc ''Product'' \<noteq> asc ''Name'' \<and>
   detect_columns [ex_col_material] FName = Some ex_col_material \<and>
   detect_columns [ex_col_material, ex_col_unit, ex_col_price] FName = Some ex_col_price \<and>
   detect_columns [ex_col_material, ex_col_unit, ex_col_price] FUnit = Some ex_col_unit \<and>
   detect_columns [ex_col_material, ex_col_unit, ex_col_price] FPrice = None \<and>
   detect_columns [ex_col_material, ex_col_unit, ex_col_price] FArticle = None \<and>
   ex_col_price \<noteq> ex_col_material \<and>
   detect_columns [ex_col_material, ex_col_unit, ex_col_price]
     \<noteq> [FName \<mapsto> ex_col_material, FUnit \<mapsto> ex_col_unit, FPrice \<mapsto> ex_col_price]"
proof -
  have w: "detect_columns [asc ''Name''] FName = Some (asc ''Name'') \<and>
     detect_columns [asc ''Name'', asc ''Product''] FName = Some (asc ''Product'') \<and>
     asc ''Product'' \<noteq> asc ''Name''"
    by (simp add: detect_eval)
  have v: "detect_columns [ex_col_material] FName = Some ex_col_material \<and>
     detect_columns [ex_col_material, ex_col_unit, ex_col_price] FName = Some ex_col_price \<and>
     detect_columns [ex_col_material, ex_col_unit, ex_col_price] FUnit = Some ex_col_unit \<and>
     detect_columns [ex_col_material, ex_col_unit, ex_col_price] FPrice = None \<and>
     detect_columns [ex_col_material, ex_col_unit, ex_col_price] FArticle = None \<and>
     ex_col_price \<noteq> ex_col_material"
    by (simp add: detect_eval)
  then have "detect_columns [ex_col_material, ex_col_unit, ex_col_price] FPrice
      \<noteq> [FName \<mapsto> ex_col_material, FUnit \<mapsto> ex_col_unit, FPrice \<mapsto> ex_col_price] FPrice"
    by simp
  then have "detect_columns [ex_col_material, ex_col_unit, ex_col_price]
      \<noteq> [FName \<mapsto> ex_col_material, FUnit \<mapsto> ex_col_unit, FPrice \<mapsto> ex_col_price]"
    by metis
  with w v show ?thesis by blast
qed

text \<open>
  C6 (amended). Each header column goes to the first logical field, in the order name,
  price, unit, article, whose pattern set matches the lowercased, trimmed header, so a
  column is assigned at most one logical field; when several columns go to the same
  field, the last of them is kept (a later column overwrites an earlier one).
\<close>

theorem detect_columns_last_match:
  "detect_columns columns FName = last_matching (header_matches name_patterns) columns \<and>
   detect_columns columns FPrice =
     last_matching (\<lambda>c. \<not> header_matches name_patterns c \<and> header_matches price_patterns c)
       columns \<and>
   detect_columns columns FUnit =
     last_matching (\<lambda>c. \<not> header_matches name_patterns c \<and> \<not> header_matches price_patterns c \<and>
                        header_matches unit_patterns c) columns \<and>
   detect_columns columns FArticle =
     last_matching (\<lambda>c. \<not> header_matches name_patterns c \<and> \<not> header_matches price_patterns c \<and>
                        \<not> header_matches unit_patterns c \<and> header_matches article_patterns c)
       columns \<and>
   (detect_columns columns f = Some c \<and> detect_columns columns g = Some c \<longrightarrow> f = g)"
proof -
  have name: "(\<lambda>c. column_field c = Some FName) = header_matches name_patterns"
    by (auto simp: column_field_def)
  have price: "(\<lambda>c. column_field c = Some FPrice)
      = (\<lambda>c. \<not> header_matches name_patterns c \<and> header_matches price_patterns c)"
    by (auto simp: column_field_def)
  have unit: "(\<lambda>c. column_field c = Some FUnit)
      = (\<lambda>c. \<not> header_matches name_patterns c \<and> \<not> header_matches price_patterns c \<and>
              header_matches unit_patterns c)"
    by (auto simp: column_field_def)
  have article: "(\<lambda>c. column_field c = Some FArticle)
      = (\<lambda>c. \<not> header_matches name_patterns c \<and> \<not> header_matches price_patterns c \<and>
              \<not> header_matches unit_patterns c \<and> header_matches article_patterns c)"
    by (auto simp: column_field_def)
  have field: "\<And>h. detect_columns columns h = Some c \<Longrightarrow> column_field c = Some h"
  proof -
    fix h assume "detect_columns columns h = Some c"
    then have "last_matching (\<lambda>c. column_field c = Some h) columns = Some c"
      by (simp add: detect_columns_last)
    then obtain x xs where f: "filter (\<lambda>c. column_field c = Some h) columns = x # xs"
      and c: "c = last (x # xs)"
      by (auto simp: last_matching_def split: list.splits)
    have "last (x # xs) \<in> set (x # xs)" by (rule last_in_set) simp
    with f c have "c \<in> set (filter (\<lambda>c. column_field c = Some h) columns)" by simp
    then show "column_field c = Some h" by simp
  qed
  have one: "detect_columns columns f = Some c \<and> detect_columns columns g = Some c \<longrightarrow> f = g"
  proof
    assume "detect_columns columns f = Some c \<and> detect_columns columns g = Some c"
    then have "column_field c = Some f" "column_field c = Some g" by (auto dest: field)
    then show "f = g" by simp
  qed
  show ?thesis
    using detect_columns_last[of columns FName] detect_columns_last[of columns FPrice]
      detect_columns_last[of columns FUnit] detect_columns_last[of columns FArticle]
      one
    by (simp only: name price unit article)
qed

theorem detect_columns_last_match_witness:
  "detect_columns ex_columns FName = Some (asc ''Name'') \<and>
   detect_columns ex_columns FUnit = Some (asc ''Unit'') \<and>
   asc ''Name'' \<noteq> asc ''Unit''"
  using detect_columns_last_match[where columns = ex_columns and f = FName and g = FUnit
      and c = "asc ''Name''"]
  by (simp add: ex_detect2 ex_mapping_def asc_eq_iff)

section \<open>The import loop\<close>

lemma add_alias_if_not_exists_id: "add_alias_if_not_exists d mid al cid src = d"
  by (simp add: add_alias_if_not_exists_def Let_def)

lemma match_material_same_catalog:
  assumes "same_catalog d d'"
  shows "match_material d' n u a cid = match_material d n u a cid"
proof -
  have g: "\<And>x y. get_material_by_name d' x y = get_material_by_name d x y"
    using assms by (simp add: same_catalog_def get_material_by_name_def)
  have f: "\<And>x y. find_material_by_alias d' x y = find_material_by_alias d x y"
    using assms
    by (simp add: same_catalog_def find_material_by_alias_def alias_rows_def alias_join_def)
  show ?thesis unfolding match_material_def g f ..
qed

lemma same_catalog_refl: "same_catalog d d"
  by (simp add: same_catalog_def)

lemma same_catalog_trans: "same_catalog d d' \<Longrightarrow> same_catalog d' d'' \<Longrightarrow> same_catalog d d''"
  by (simp add: same_catalog_def)

lemma add_material_price_catalog:
  "add_material_price d mid p pd sid = Inr (d', i) \<Longrightarrow> same_catalog d d'"
  by (auto simp: add_material_price_def same_catalog_def Let_def split: if_splits)

lemma add_unmatched_import_catalog:
  "same_catalog d (fst (add_unmatched_import d sid n p u a))"
  by (simp add: add_unmatched_import_def same_catalog_def Let_def)

lemma process_row_unreadable:
  "extract_material_data r mapping = Inl e \<Longrightarrow>
     process_row today mapping source_id sid cid (d, res) r = (d, res\<lparr>errors := errors res + 1\<rparr>)"
  by (simp add: process_row_def)

lemma process_row_empty_name:
  "extract_material_data r mapping = Inr md \<Longrightarrow> \<not> truthy_str (md_name md) \<Longrightarrow>
     process_row today mapping source_id sid cid (d, res) r = (d, res\<lparr>errors := errors res + 1\<rparr>)"
  by (simp add: process_row_def)

lemma process_row_unmatched:
  "extract_material_data r mapping = Inr md \<Longrightarrow> md_name md = Some n \<Longrightarrow> n \<noteq> [] \<Longrightarrow>
   match_material d (md_name md) (md_unit md) (md_article md) cid = None \<Longrightarrow>
     process_row today mapping source_id sid cid (d, res) r =
       (fst (add_unmatched_import d sid n (md_price md) (md_unit md) (md_article md)),
        res\<lparr>unmatched := unmatched res @ [md], errors := errors res + 1\<rparr>)"
  by (simp add: process_row_def truthy_str_def)

lemma process_row_rejected:
  "extract_material_data r mapping = Inr md \<Longrightarrow> truthy_str (md_name md) \<Longrightarrow>
   match_material d (md_name md) (md_unit md) (md_article md) cid = Some m \<Longrightarrow>
   price_not_null d \<Longrightarrow> md_price md = None \<Longrightarrow>
     process_row today mapping source_id sid cid (d, res) r = (d, res\<lparr>errors := errors res + 1\<rparr>)"
  by (simp add: process_row_def add_material_price_def)

lemma process_row_matched:
  "extract_material_data r mapping = Inr md \<Longrightarrow> truthy_str (md_name md) \<Longrightarrow>
   match_material d (md_name md) (md_unit md) (md_article md) cid = Some m \<Longrightarrow>
   \<not> (price_not_null d \<and> md_price md = None) \<Longrightarrow>
     \<exists>d' i. add_material_price d (m_id m) (md_price md) today source_id = Inr (d', i) \<and>
       process_row today mapping source_id sid cid (d, res) r =
         (d', res\<lparr>processed := processed res + 1\<rparr>)"
  by (auto simp: process_row_def add_material_price_def add_alias_if_not_exists_id Let_def)


lemma process_row_catalog:
  "same_catalog (fst st) (fst (process_row today mapping source_id sid cid st r))"
proof -
  obtain d res where st: "st = (d, res)" by (cases st)
  show ?thesis
  proof (cases "extract_material_data r mapping")
    case (Inl e)
    with st show ?thesis by (simp add: process_row_unreadable same_catalog_refl)
  next
    case (Inr md)
    show ?thesis
    proof (cases "truthy_str (md_name md)")
      case False
      with Inr st show ?thesis by (simp add: process_row_empty_name same_catalog_refl)
    next
      case True
      then obtain n where n: "md_name md = Some n" "n \<noteq> []" by (auto simp: truthy_str_def)
      show ?thesis
      proof (cases "match_material d (md_name md) (md_unit md) (md_article md) cid")
        case None
        with Inr n st show ?thesis
          by (simp add: process_row_unmatched add_unmatched_import_catalog)
      next
        case (Some m)
        show ?thesis
        proof (cases "price_not_null d \<and> md_price md = None")
          case True
          with Inr \<open>truthy_str (md_name md)\<close> Some st show ?thesis
            by (simp add: process_row_rejected same_catalog_refl)
        next
          case False
          from process_row_matched[OF Inr \<open>truthy_str (md_name md)\<close> Some False]
          obtain d' i where "add_material_price d (m_id m) (md_price md) today source_id = Inr (d', i)"
            and "process_row today mapping source_id sid cid (d, res) r
                 = (d', res\<lparr>processed := processed res + 1\<rparr>)" by blast
          with st show ?thesis by (auto dest: add_material_price_catalog)
        qed
      qed
    qed
  qed
qed



lemma foldl_process_row_catalog:
  "same_catalog (fst st) (fst (foldl (process_row today mapping source_id sid cid) st rows))"
proof (induction rows arbitrary: st)
  case Nil
  then show ?case by (simp add: same_catalog_refl)
next
  case (Cons r rows)
  show ?case
    using same_catalog_trans[OF process_row_catalog Cons.IH] by simp
qed

lemma process_row_resolvable:
  assumes "price_not_null dcat" and "resolvable dcat mapping cid r" and "same_catalog dcat (fst st)"
  shows "snd (process_row today mapping source_id sid cid st r) =
     (if row_price mapping r = None then (snd st)\<lparr>errors := errors (snd st) + 1\<rparr>
      else (snd st)\<lparr>processed := processed (snd st) + 1\<rparr>)"
proof -
  obtain d res where st: "st = (d, res)" by (cases st)
  from assms(2) obtain md where md: "extract_material_data r mapping = Inr md"
    and name: "truthy_str (md_name md)"
    and m0: "match_material dcat (md_name md) (md_unit md) (md_article md) cid \<noteq> None"
    by (auto simp: resolvable_def split: sum.splits)
  from assms(3) st have sc: "same_catalog dcat d" by simp
  with m0 obtain m where m: "match_material d (md_name md) (md_unit md) (md_article md) cid = Some m"
    by (auto simp: match_material_same_catalog)
  from sc assms(1) have nn: "price_not_null d" by (simp add: same_catalog_def)
  have rp: "row_price mapping r = md_price md" using md by (simp add: row_price_def)
  show ?thesis
  proof (cases "md_price md")
    case None
    with md name m nn st rp show ?thesis by (simp add: process_row_rejected)
  next
    case (Some p)
    then have "\<not> (price_not_null d \<and> md_price md = None)" by simp
    from process_row_matched[OF md name m this]
    obtain d' i where
      "process_row today mapping source_id sid cid (d, res) r
         = (d', res\<lparr>processed := processed res + 1\<rparr>)" by blast
    with st rp Some show ?thesis by simp
  qed
qed

lemma foldl_process_row_resolvable:
  assumes "price_not_null dcat" and "\<forall>r\<in>set rows. resolvable dcat mapping cid r"
    and "same_catalog dcat (fst st)"
  shows "processed (snd (foldl (process_row today mapping source_id sid cid) st rows))
           = processed (snd st) + length (filter (\<lambda>r. row_price mapping r \<noteq> None) rows) \<and>
         errors (snd (foldl (process_row today mapping source_id sid cid) st rows))
           = errors (snd st) + length (filter (\<lambda>r. row_price mapping r = None) rows) \<and>
         unmatched (snd (foldl (process_row today mapping source_id sid cid) st rows))
           = unmatched (snd st)"
  using assms(2,3)
proof (induction rows arbitrary: st)
  case Nil
  then show ?case by simp
next
  case (Cons r rows)
  let ?st = "process_row today mapping source_id sid cid st r"
  from Cons.prems have r: "resolvable dcat mapping cid r" by simp
  have sc: "same_catalog dcat (fst ?st)"
    using same_catalog_trans[OF Cons.prems(2) process_row_catalog] .
  have step: "snd ?st =
     (if row_price mapping r = None then (snd st)\<lparr>errors := errors (snd st) + 1\<rparr>
      else (snd st)\<lparr>processed := processed (snd st) + 1\<rparr>)"
    using assms(1) r Cons.prems(2) by (rule process_row_resolvable)
  have "\<forall>r\<in>set rows. resolvable dcat mapping cid r" using Cons.prems(1) by simp
  from Cons.IH[OF this sc] step show ?case by simp
qed



lemma fold_max_ge: "(a::int) \<le> fold max xs a"
proof (induction xs arbitrary: a)
  case Nil
  then show ?case by simp
next
  case (Cons x xs)
  have "a \<le> max x a" by simp
  also have "\<dots> \<le> fold max xs (max x a)" by (rule Cons.IH)
  finally show ?case by simp
qed

lemma fold_max_upper: "x \<in> set xs \<Longrightarrow> (x::int) \<le> fold max xs a"
proof (induction xs arbitrary: a)
  case Nil
  then show ?case by simp
next
  case (Cons y ys)
  show ?case
  proof (cases "x = y")
    case True
    have "x \<le> max y a" using True by simp
    also have "\<dots> \<le> fold max ys (max y a)" by (rule fold_max_ge)
    finally show ?thesis by simp
  next
    case False
    with Cons show ?thesis by simp
  qed
qed

lemma next_rowid_fresh: "next_rowid ids \<notin> set ids"
proof
  assume "next_rowid ids \<in> set ids"
  then have "next_rowid ids \<le> fold max ids 0" by (rule fold_max_upper)
  then show False by (simp add: next_rowid_def)
qed

lemma failed_session:
  "import_sessions (update_import_session (fst (create_import_session d path cid vid))
      (snd (create_import_session d path cid vid)) ''failed'' None None)
   = import_sessions d @
       [\<lparr>session_id = next_rowid (map session_id (import_sessions d)), source_file = path,
         session_customer_id = cid, session_vendor_id = vid, status = ''failed'',
         processed_rows = None, error_rows = None\<rparr>]"
proof -
  let ?i = "next_rowid (map session_id (import_sessions d))"
  have "\<forall>s\<in>set (import_sessions d). session_id s \<noteq> ?i"
    using next_rowid_fresh[of "map session_id (import_sessions d)"] by (metis image_eqI set_map)
  then have "\<And>g. map (\<lambda>s. if session_id s = ?i then g s else s) (import_sessions d)
      = import_sessions d"
    by (intro map_idI) auto
  then show ?thesis
    by (simp add: create_import_session_def update_import_session_def Let_def)
qed


lemma ex_catalog_simps:
  "price_not_null (ex_catalog al)" "materials (ex_catalog al) = [ex_m1, ex_m2]"
  "material_aliases (ex_catalog al) = al" "material_prices (ex_catalog al) = []"
  "unmatched_imports (ex_catalog al) = []"
  by (simp_all add: ex_catalog_def)

lemma process_dataframe_ex_columns:
  "process_dataframe d today \<lparr>df_columns = ex_columns, df_rows = rows\<rparr> source_id sid cid =
     foldl (process_row today ex_mapping source_id sid cid)
       (d, \<lparr>processed = 0, errors = 0, unmatched = []\<rparr>) rows"
  by (simp add: process_dataframe_def ex_detect2)

lemma ex_extract_unknown:
  "extract_material_data ex_row_unknown ex_mapping
     = Inr \<lparr>md_name = Some (asc ''Gravel''), md_price = Some 10, md_unit = Some (asc ''t''),
            md_article = None\<rparr>"
  by (simp add: extract_material_data_def safe_get_def safe_get_numeric_def ex_mapping_def
      ex_row_unknown_def asc_def py_strip_def is_space_def)

lemma ex_extract_good:
  "extract_material_data ex_row_good ex_mapping
     = Inr \<lparr>md_name = Some (asc ''Concrete B25''), md_price = Some 100,
            md_unit = Some (asc ''m3''), md_article = None\<rparr>"
  by (simp add: extract_material_data_def safe_get_def safe_get_numeric_def ex_mapping_def
      ex_row_good_def asc_def py_strip_def is_space_def)

lemma ex_extract_bad_price:
  "extract_material_data ex_row_bad_price ex_mapping
     = Inr \<lparr>md_name = Some (asc ''Concrete B25''), md_price = None,
            md_unit = Some (asc ''m3''), md_article = None\<rparr>"
  by (simp add: extract_material_data_def safe_get_def safe_get_numeric_def ex_mapping_def
      ex_row_bad_price_def asc_def py_strip_def is_space_def)

lemma ex_match_unknown:
  "match_material (ex_catalog []) (Some (asc ''Gravel'')) (Some (asc ''t'')) None None = None"
  by (simp add: resolver_eval clean_eval)

lemma ex_match_good:
  "match_material (ex_catalog []) (Some (asc ''Concrete B25'')) (Some (asc ''m3'')) None None
     = Some ex_m1"
  by (simp add: resolver_eval clean_eval)

lemma ex_resolvable:
  "resolvable (ex_catalog []) ex_mapping None ex_row_good"
  "resolvable (ex_catalog []) ex_mapping None ex_row_bad_price"
  by (simp_all add: resolvable_def ex_extract_good ex_extract_bad_price ex_match_good
      truthy_str_def asc_Nil_iff)

lemma ex_row_prices:
  "row_price ex_mapping ex_row_good = Some 100"
  "row_price ex_mapping ex_row_bad_price = None"
  by (simp_all add: row_price_def ex_extract_good ex_extract_bad_price)

text \<open>
  C7 (as stated, refuted). A batch of one row whose material the catalog does not
  know: the resolver finds no match, the row is added to the unmatched list and to the
  table of unmatched imports, and the error count of the batch is 1.
\<close>

theorem process_dataframe_unmatched_error_counterexample:
  "match_material (ex_catalog []) (Some (asc ''Gravel'')) (Some (asc ''t'')) None None = None \<and>
   unmatched (snd (process_dataframe (ex_catalog []) ''2024-06-01''
       \<lparr>df_columns = ex_columns, df_rows = [ex_row_unknown]\<rparr> 1 1 None))
     = [\<lparr>md_name = Some (asc ''Gravel''), md_price = Some 10, md_unit = Some (asc ''t''),
         md_article = None\<rparr>] \<and>
   length (unmatched_imports (fst (process_dataframe (ex_catalog []) ''2024-06-01''
       \<lparr>df_columns = ex_columns, df_rows = [ex_row_unknown]\<rparr> 1 1 None))) = 1 \<and>
   errors (snd (process_dataframe (ex_catalog []) ''2024-06-01''
       \<lparr>df_columns = ex_columns, df_rows = [ex_row_unknown]\<rparr> 1 1 None)) = 1"
proof -
  let ?md = "\<lparr>md_name = Some (asc ''Gravel''), md_price = Some 10, md_unit = Some (asc ''t''),
              md_article = None\<rparr>"
  have "process_row ''2024-06-01'' ex_mapping 1 1 None
          (ex_catalog [], \<lparr>processed = 0, errors = 0, unmatched = []\<rparr>) ex_row_unknown
      = (fst (add_unmatched_import (ex_catalog []) 1 (asc ''Gravel'') (md_price ?md) (md_unit ?md)
               (md_article ?md)),
         \<lparr>processed = 0, errors = 0, unmatched = []\<rparr>
           \<lparr>unmatched := unmatched \<lparr>processed = 0, errors = 0, unmatched = []\<rparr> @ [?md],
            errors := errors \<lparr>processed = 0, errors = 0, unmatched = []\<rparr> + 1\<rparr>)"
    by (rule process_row_unmatched[OF ex_extract_unknown]) (simp_all add: ex_match_unknown asc_Nil_iff)
  then show ?thesis
    by (simp add: process_dataframe_ex_columns ex_match_unknown add_unmatched_import_def
        ex_catalog_simps Let_def)
qed

text \<open>
  C7 (amended). For every data row with a non-empty name that the resolver fails to
  match, the loop body creates an unmatched-import record for the session, appends the
  raw row to the unmatched list, and adds one to the error count of the batch: an
  unmatched row is counted as an error. Nothing else changes.
\<close>

theorem process_row_unmatched_counts_error:
  assumes "extract_material_data r mapping = Inr md"
    and "md_name md = Some n" and "n \<noteq> []"
    and "match_material d (md_name md) (md_unit md) (md_article md) customer_id = None"
  shows "unmatched_imports (fst (process_row today mapping source_id sid customer_id (d, res) r))
           = unmatched_imports d @
               [\<lparr>unmatched_id = next_rowid (map unmatched_id (unmatched_imports d)),
                 import_session_id = sid, raw_name = n, raw_price = md_price md,
                 raw_unit = md_unit md, raw_article = md_article md\<rparr>] \<and>
         unmatched (snd (process_row today mapping source_id sid customer_id (d, res) r))
           = unmatched res @ [md] \<and>
         errors (snd (process_row today mapping source_id sid customer_id (d, res) r))
           = errors res + 1 \<and>
         processed (snd (process_row today mapping source_id sid customer_id (d, res) r))
           = processed res \<and>
         material_prices (fst (process_row today mapping source_id sid customer_id (d, res) r))
           = material_prices d \<and>
         same_catalog d (fst (process_row today mapping source_id sid customer_id (d, res) r))"
  using process_row_unmatched[OF assms, of today source_id sid res]
  by (simp add: add_unmatched_import_def same_catalog_def Let_def)

theorem process_row_unmatched_counts_error_witness:
  "extract_material_data ex_row_unknown ex_mapping
     = Inr \<lparr>md_name = Some (asc ''Gravel''), md_price = Some 10, md_unit = Some (asc ''t''),
            md_article = None\<rparr> \<and>
   errors (snd (process_row ''2024-06-01'' ex_mapping 1 1 None
     (ex_catalog [], \<lparr>processed = 0, errors = 0, unmatched = []\<rparr>) ex_row_unknown)) = 1"
  using process_row_unmatched_counts_error[where r = ex_row_unknown and mapping = ex_mapping
      and md = "\<lparr>md_name = Some (asc ''Gravel''), md_price = Some 10, md_unit = Some (asc ''t''),
                md_article = None\<rparr>"
      and n = "asc ''Gravel''" and d = "ex_catalog []" and customer_id = None
      and today = "''2024-06-01''" and source_id = 1 and sid = 1
      and res = "\<lparr>processed = 0, errors = 0, unmatched = []\<rparr>"]
  by (simp add: ex_extract_unknown ex_match_unknown asc_Nil_iff)





lemma process_dataframe_aliases:
  "material_aliases (fst (process_dataframe d today df source_id sid customer_id))
     = material_aliases d"
  using foldl_process_row_catalog[of "(d, \<lparr>processed = 0, errors = 0, unmatched = []\<rparr>)"
      today "detect_columns (df_columns df)" source_id sid customer_id "df_rows df"]
  by (simp add: process_dataframe_def same_catalog_def)

text \<open>
  C9 (the code does not do this). A batch of one row whose raw name \<open>Concrete B25\<close>
  matches the material with the canonical name \<open>concrete b25\<close>: the row is processed,
  the raw name differs from the canonical name, and after the import the alias table
  is as empty as before. No import ever changes the alias table.
\<close>

theorem process_dataframe_registers_no_alias:
  "material_aliases (fst (process_dataframe d today df source_id sid customer_id))
     = material_aliases d \<and>
   match_material (ex_catalog []) (Some (asc ''Concrete B25'')) (Some (asc ''m3'')) None None
     = Some ex_m1 \<and>
   asc ''Concrete B25'' \<noteq> name_canonical ex_m1 \<and>
   processed (snd (process_dataframe (ex_catalog []) ''2024-06-01''
      \<lparr>df_columns = ex_columns, df_rows = [ex_row_good]\<rparr> 1 1 None)) = 1 \<and>
   material_aliases (fst (process_dataframe (ex_catalog []) ''2024-06-01''
      \<lparr>df_columns = ex_columns, df_rows = [ex_row_good]\<rparr> 1 1 None)) = [] \<and>
   find_material_by_alias (fst (process_dataframe (ex_catalog []) ''2024-06-01''
      \<lparr>df_columns = ex_columns, df_rows = [ex_row_good]\<rparr> 1 1 None))
      (asc ''Concrete B25'') None = []"
proof -
  let ?df = "\<lparr>df_columns = ex_columns, df_rows = [ex_row_good]\<rparr>"
  let ?out = "process_dataframe (ex_catalog []) ''2024-06-01'' ?df 1 1 None"
  have al: "material_aliases (fst ?out) = []"
    by (simp add: process_dataframe_aliases ex_catalog_simps)
  have "same_catalog (ex_catalog []) (fst (ex_catalog [], \<lparr>processed = 0, errors = 0, unmatched = []\<rparr>))"
    by (simp add: same_catalog_refl)
  from foldl_process_row_resolvable[where rows = "[ex_row_good]" and mapping = ex_mapping
      and dcat = "ex_catalog []" and cid = None and today = "''2024-06-01''" and source_id = 1
      and sid = 1, OF _ _ this]
  have pr: "processed (snd ?out) = 1"
    by (simp add: process_dataframe_ex_columns ex_catalog_simps ex_resolvable ex_row_prices)
  have ne: "asc ''Concrete B25'' \<noteq> name_canonical ex_m1"
    by (simp add: ex_m1_def asc_eq_iff)
  have nf: "find_material_by_alias (fst ?out) (asc ''Concrete B25'') None = []"
    by (simp add: find_material_by_alias_def alias_rows_def alias_join_def al)
  from al pr ne nf ex_match_good process_dataframe_aliases show ?thesis by blast
qed

text \<open>
  C10. For a path that does not exist, \<open>import_from_file\<close> raises \<open>FileNotFoundError\<close>
  and leaves the store as it was: no session row is inserted, none is marked failed.
  A session is marked failed only after it was created: when the file exists and
  reading it raises, the store gains exactly the new session, in status \<open>failed\<close>.
\<close>

theorem import_from_file_missing_file:
  "(fs file_path = None \<longrightarrow>
      import_from_file d fs today file_path customer_id vendor_id doc_date
        = (d, Inl FileNotFoundError) \<and>
      import_sessions (fst (import_from_file d fs today file_path customer_id vendor_id doc_date))
        = import_sessions d) \<and>
   (fs file_path = Some f \<and>
    (if endswith file_path ''.csv'' then read_csv f else read_excel f) = None \<longrightarrow>
      snd (import_from_file d fs today file_path customer_id vendor_id doc_date) = Inl ReadError \<and>
      import_sessions (fst (import_from_file d fs today file_path customer_id vendor_id doc_date))
        = import_sessions d @
            [\<lparr>session_id = next_rowid (map session_id (import_sessions d)),
              source_file = file_path, session_customer_id = customer_id,
              session_vendor_id = vendor_id, status = ''failed'',
              processed_rows = None, error_rows = None\<rparr>])"
proof -
  have missing: "fs file_path = None \<longrightarrow>
      import_from_file d fs today file_path customer_id vendor_id doc_date
        = (d, Inl FileNotFoundError) \<and>
      import_sessions (fst (import_from_file d fs today file_path customer_id vendor_id doc_date))
        = import_sessions d"
    by (simp add: import_from_file_def)
  have unreadable: "fs file_path = Some f \<and>
    (if endswith file_path ''.csv'' then read_csv f else read_excel f) = None \<longrightarrow>
      snd (import_from_file d fs today file_path customer_id vendor_id doc_date) = Inl ReadError \<and>
      import_sessions (fst (import_from_file d fs today file_path customer_id vendor_id doc_date))
        = import_sessions d @
            [\<lparr>session_id = next_rowid (map session_id (import_sessions d)),
              source_file = file_path, session_customer_id = customer_id,
              session_vendor_id = vendor_id, status = ''failed'',
              processed_rows = None, error_rows = None\<rparr>]"
  proof
    assume a: "fs file_path = Some f \<and>
      (if endswith file_path ''.csv'' then read_csv f else read_excel f) = None"
    then have "import_from_file d fs today file_path customer_id vendor_id doc_date =
        (update_import_session (fst (create_import_session d file_path customer_id vendor_id))
           (snd (create_import_session d file_path customer_id vendor_id)) ''failed'' None None,
         Inl ReadError)"
      by (simp add: import_from_file_def split_beta)
    then show "snd (import_from_file d fs today file_path customer_id vendor_id doc_date) = Inl ReadError \<and>
      import_sessions (fst (import_from_file d fs today file_path customer_id vendor_id doc_date))
        = import_sessions d @
            [\<lparr>session_id = next_rowid (map session_id (import_sessions d)),
              source_file = file_path, session_customer_id = customer_id,
              session_vendor_id = vendor_id, status = ''failed'',
              processed_rows = None, error_rows = None\<rparr>]"
      by (simp add: failed_session)
  qed
  from missing unreadable show ?thesis ..
qed

theorem import_from_file_missing_file_witness:
  "import_from_file (ex_catalog []) Map.empty ''2024-06-01'' ''prices.csv'' (Some 7) None None
     = (ex_catalog [], Inl FileNotFoundError) \<and>
   import_sessions (fst (import_from_file (ex_catalog []) [''prices.csv'' \<mapsto>
        \<lparr>read_csv = None, read_excel = None\<rparr>] ''2024-06-01'' ''prices.csv'' (Some 7) None None))
     = [\<lparr>session_id = 1, source_file = ''prices.csv'', session_customer_id = Some 7,
         session_vendor_id = None, status = ''failed'', processed_rows = None,
         error_rows = None\<rparr>]"
  using import_from_file_missing_file[where d = "ex_catalog []" and fs = Map.empty
      and today = "''2024-06-01''" and file_path = "''prices.csv''" and customer_id = "Some 7"
      and vendor_id = None and doc_date = None]
    import_from_file_missing_file[where d = "ex_catalog []"
      and fs = "[''prices.csv'' \<mapsto> \<lparr>read_csv = None, read_excel = None\<rparr>]"
      and f = "\<lparr>read_csv = None, read_excel = None\<rparr>"
      and today = "''2024-06-01''" and file_path = "''prices.csv''" and customer_id = "Some 7"
      and vendor_id = None and doc_date = None]
  by (simp add: next_rowid_def ex_catalog_def endswith_def)

end
